theory Spec2Isabelle
  imports Main
begin

section \<open>Overview\<close>

text \<open>
  The source file holds three programs, one after the other: the viewer of the archive
  (lines 1--89), the backup tool (lines 90--344) and a second variant of the backup
  tool (lines 344--532). The two variants share \<^verbatim>\<open>appendToJson\<close>,
  \<^verbatim>\<open>checkDuplicate\<close> and the body of \<^verbatim>\<open>processMessage\<close> behind the computation of
  the folder name, word for word; they differ in the folder name and in
  \<^verbatim>\<open>syncRecentMessages\<close>. A name that ends in \<open>_B\<close> belongs to the second variant,
  and line numbers are those of the source file.

  The model is sequential: one message is processed after the other, and the calls
  of the client library, of the file system and of the built-in functions are the
  functions and the state of the sections below.
\<close>

section \<open>Strings and file names\<close>

text \<open>
  JavaScript strings are modelled as \<^typ>\<open>string\<close>. The regular expression
  \<^verbatim>\<open>/[^a-zA-Z0-9_\- ]/g\<close> of \<^verbatim>\<open>getChatFilenameBase\<close> keeps the letters, the
  digits, the underscore, the hyphen and the space.
\<close>

definition safeChar :: "char \<Rightarrow> bool" where
  "safeChar c =
     (let n = (of_char c :: nat)
      in (97 \<le> n \<and> n \<le> 122) \<or> (65 \<le> n \<and> n \<le> 90) \<or> (48 \<le> n \<and> n \<le> 57)
         \<or> c = CHR ''_'' \<or> c = CHR ''-'' \<or> c = CHR '' '')"

text \<open>\<^verbatim>\<open>s.replace(/[^a-zA-Z0-9_\- ]/g, '_')\<close>: every character the class does not
  keep becomes an underscore.\<close>

definition replaceUnsafe :: "string \<Rightarrow> string" where
  "replaceUnsafe s = map (\<lambda>c. if safeChar c then c else CHR ''_'') s"

text \<open>
  \<^verbatim>\<open>String.prototype.trim\<close> removes white space and line terminators from both
  ends: tab, line feed, vertical tab, form feed, carriage return, space and the
  no-break space are the ones among the characters of \<^typ>\<open>char\<close>.
\<close>

definition isWhiteSpace :: "char \<Rightarrow> bool" where
  "isWhiteSpace c = ((of_char c :: nat) \<in> {9, 10, 11, 12, 13, 32, 160})"

definition trim :: "string \<Rightarrow> string" where
  "trim s = rev (dropWhile isWhiteSpace (rev (dropWhile isWhiteSpace s)))"

text \<open>The expression \<^verbatim>\<open>name.replace(/[^a-zA-Z0-9_\- ]/g, '_').trim()\<close>, written three
  times in the source (lines 184, 197 and 406/411).\<close>

definition sanitize :: "string \<Rightarrow> string" where
  "sanitize s = trim (replaceUnsafe s)"

text \<open>\<^verbatim>\<open>s.split(sep)[0]\<close> for a one-character separator: the part before its first
  occurrence, the whole string when it does not occur.\<close>

definition splitFirst :: "char \<Rightarrow> string \<Rightarrow> string" where
  "splitFirst sep s = takeWhile (\<lambda>c. c \<noteq> sep) s"

section \<open>The archive on disk\<close>

text \<open>
  A path is the list of the components handed to \<^verbatim>\<open>path.join\<close>. A record of a
  conversation log is the object \<^verbatim>\<open>messageData\<close> that \<^verbatim>\<open>processMessage\<close> builds
  (lines 232--242).
\<close>

type_synonym path = "string list"

record messageData =
  md_id :: string
  md_from :: string
  md_to :: string
  md_author :: string
  md_body :: string
  md_timestamp :: string
  md_hasMedia :: bool
  md_isSentByMe :: bool
  md_isViewOnce :: bool

text \<open>
  A file is either a conversation log, the JSON array of records that
  \<^verbatim>\<open>fs.writeJson\<close> wrote, or anything else: \<open>Other s\<close> is a file with content \<open>s\<close>
  that \<^verbatim>\<open>fs.readJson\<close> cannot parse (an empty file, a truncated log, the bytes of a
  media file). JSON text of another shape than an array of records is never
  written by the program and is not part of the model.
\<close>

datatype fileContent = JsonLog "messageData list" | Other string

type_synonym filesystem = "path \<rightharpoonup> fileContent"

datatype error = ParseError | Failure string

definition pathExists :: "filesystem \<Rightarrow> path \<Rightarrow> bool" where
  "pathExists fs p = (fs p \<noteq> None)"

definition readJson :: "filesystem \<Rightarrow> path \<Rightarrow> error + messageData list" where
  "readJson fs p =
     (case fs p of
        None \<Rightarrow> Inl (Failure ''ENOENT'')
      | Some (Other s) \<Rightarrow> Inl ParseError
      | Some (JsonLog data) \<Rightarrow> Inr data)"

text \<open>Writing succeeds in the model: a full disk or a missing permission is not
  represented.\<close>

definition writeJson :: "filesystem \<Rightarrow> path \<Rightarrow> messageData list \<Rightarrow> filesystem" where
  "writeJson fs p data = fs(p \<mapsto> JsonLog data)"

definition writeFile :: "filesystem \<Rightarrow> path \<Rightarrow> string \<Rightarrow> filesystem" where
  "writeFile fs p content = fs(p \<mapsto> Other content)"

text \<open>
  The first statements of \<^verbatim>\<open>appendToJson\<close> (lines 317--320):
  \<^verbatim>\<open>
  let data = [];
  try {
      if (await fs.pathExists(filePath)) data = await fs.readJson(filePath);
  } catch (err) { data = []; }
  \<close>
\<close>

definition loadData :: "filesystem \<Rightarrow> path \<Rightarrow> messageData list" where
  "loadData fs filePath =
     (if pathExists fs filePath
      then (case readJson fs filePath of Inr data \<Rightarrow> data | Inl err \<Rightarrow> [])
      else [])"

text \<open>
  \<^verbatim>\<open>
  if (data.length > 0 && data[data.length - 1].id === newData.id) return;
  data.push(newData);
  await fs.writeJson(filePath, data, { spaces: 2 });
  \<close>
\<close>

definition appendToJson :: "filesystem \<Rightarrow> path \<Rightarrow> messageData \<Rightarrow> filesystem" where
  "appendToJson fs filePath newData =
     (let data = loadData fs filePath
      in if length data > 0 \<and> md_id (data ! (length data - 1)) = md_id newData then fs
         else writeJson fs filePath (data @ [newData]))"

text \<open>
  \<^verbatim>\<open>
  try {
      if (await fs.pathExists(filePath)) {
          const data = await fs.readJson(filePath);
          return data.some(m => m.id === msgId);
      }
  } catch (err) { return false; }
  return false;
  \<close>
\<close>

definition checkDuplicate :: "filesystem \<Rightarrow> path \<Rightarrow> string \<Rightarrow> bool" where
  "checkDuplicate fs filePath msgId =
     (if pathExists fs filePath
      then (case readJson fs filePath of
              Inr data \<Rightarrow> list_ex (\<lambda>m. md_id m = msgId) data
            | Inl err \<Rightarrow> False)
      else False)"

text \<open>
  The log step of \<^verbatim>\<open>processMessage\<close> (lines 229--243), as it acts on the disk: the
  duplicate check, then the append when the check says no.
\<close>

definition saveLog :: "filesystem \<Rightarrow> path \<Rightarrow> messageData \<Rightarrow> filesystem" where
  "saveLog fs logFile messageData =
     (if \<not> checkDuplicate fs logFile (md_id messageData)
      then appendToJson fs logFile messageData
      else fs)"

section \<open>The messaging client, the configuration and the console\<close>

text \<open>
  A value of \<^verbatim>\<open>config.json\<close> that is read in a boolean context. The numbers of the
  model are the integers.
\<close>

datatype jsvalue = Undefined | Null | Bool bool | Number int | Str string

fun truthy :: "jsvalue \<Rightarrow> bool" where
  "truthy Undefined = False"
| "truthy Null = False"
| "truthy (Bool b) = b"
| "truthy (Number n) = (n \<noteq> 0)"
| "truthy (Str s) = (s \<noteq> [])"

record config =
  HEADLESS :: bool
  SAVE_GROUPS :: bool
  SAVE_MESSAGES :: bool
  SAVE_MEDIA :: bool
  BACKUP_DIR :: string
  SYNC_LIMIT :: jsvalue

text \<open>
  The objects of the client library, with the properties that the program reads.
  A property that may be \<^verbatim>\<open>undefined\<close> is an option; \<open>chat_serialized\<close> is
  \<^verbatim>\<open>chat.id._serialized\<close>, \<open>chat_user\<close> is \<^verbatim>\<open>chat.id.user\<close> and \<open>contact_user\<close> is
  \<^verbatim>\<open>contact.id.user\<close>. An absent \<^verbatim>\<open>msg.isViewOnce\<close> is read as \<open>False\<close>, which is
  what \<^verbatim>\<open>msg.isViewOnce || false\<close> and the two conditionals on it make of it.
\<close>

record chat =
  chat_serialized :: string
  chat_user :: "string option"
  isGroup :: bool
  chat_name :: "string option"

record contact =
  contact_name :: "string option"
  contact_pushname :: "string option"
  contact_user :: "string option"

record media =
  mimetype :: string
  media_data :: string

record message =
  msg_id :: string
  msg_from :: string
  msg_to :: string
  msg_author :: "string option"
  msg_body :: string
  msg_timestamp :: int
  msg_hasMedia :: bool
  msg_fromMe :: bool
  msg_isViewOnce :: bool

record fetchOptions =
  limit :: jsvalue
  fromMe :: "bool option"

text \<open>
  What the program calls and does not define: the client library, the built-in
  \<^verbatim>\<open>Date.prototype.toISOString\<close> (applied to milliseconds; it throws on a date out of
  range) and \<^verbatim>\<open>mime.extension\<close> (\<open>None\<close> is its \<^verbatim>\<open>false\<close>). A call that throws
  returns \<open>Inl\<close>.
\<close>

record provider =
  getChats :: "error + chat list"
  fetchMessages :: "chat \<Rightarrow> fetchOptions \<Rightarrow> error + message list"
  getContactById :: "string \<Rightarrow> error + contact"
  getChat :: "message \<Rightarrow> error + chat"
  getContact :: "message \<Rightarrow> error + contact"
  downloadMedia :: "message \<Rightarrow> error + media option"
  toISOString :: "int \<Rightarrow> error + string"
  mimeExtension :: "string \<Rightarrow> string option"

text \<open>The lines that the program prints, and the state it works on: the disk and
  the console.\<close>

datatype event =
    FoundChats nat jsvalue
  | SavedLog string string
  | ViewOnceDetected string
  | MediaSaved string string
  | MediaFailed string error
  | ProcessingError error
  | SyncError error

record state =
  files :: filesystem
  console :: "event list"

definition logEvent :: "event \<Rightarrow> state \<Rightarrow> state" where
  "logEvent e st = st\<lparr>console := console st @ [e]\<rparr>"

text \<open>\<^verbatim>\<open>a || b\<close> on strings that may be undefined: the empty string and
  \<^verbatim>\<open>undefined\<close> are falsy.\<close>

definition truthyString :: "string option \<Rightarrow> bool" where
  "truthyString a = (case a of None \<Rightarrow> False | Some s \<Rightarrow> s \<noteq> [])"

definition orElse :: "string option \<Rightarrow> string option \<Rightarrow> string option" where
  "orElse a b = (if truthyString a then a else b)"

section \<open>The path resolver\<close>

text \<open>
  Lines 172--200.
  \<^verbatim>\<open>
  let filenameBase = chat.id._serialized;
  if (!chat.isGroup) {
      try {
          const contact = await client.getContactById(chat.id._serialized);
          const contactName = contact.name || contact.pushname || contact.id.user;
          if (contactName) {
              filenameBase = contactName.replace(/[^a-zA-Z0-9_\- ]/g, '_').trim();
          }
      } catch (contactErr) {
          const phoneNumber = msgFrom ? msgFrom.split('@')[0] : chat.id.user;
          if (phoneNumber && phoneNumber.length > 0) {
              filenameBase = phoneNumber;
          }
      }
  } else {
      filenameBase = (chat.name && chat.name.trim()) || chat.id._serialized;
      filenameBase = filenameBase.replace(/[^a-zA-Z0-9_\- ]/g, '_').trim();
  }
  return filenameBase;
  \<close>
\<close>

definition contactNameOf :: "contact \<Rightarrow> string option" where
  "contactNameOf c = orElse (orElse (contact_name c) (contact_pushname c)) (contact_user c)"

definition getChatFilenameBase :: "provider \<Rightarrow> chat \<Rightarrow> string \<Rightarrow> string" where
  "getChatFilenameBase env chat msgFrom =
     (if \<not> isGroup chat then
        (case getContactById env (chat_serialized chat) of
           Inr contact \<Rightarrow>
             (case contactNameOf contact of
                Some contactName \<Rightarrow>
                  if contactName \<noteq> [] then sanitize contactName else chat_serialized chat
              | None \<Rightarrow> chat_serialized chat)
         | Inl contactErr \<Rightarrow>
             (case (if msgFrom \<noteq> [] then Some (splitFirst CHR ''@'' msgFrom) else chat_user chat) of
                Some phoneNumber \<Rightarrow>
                  if length phoneNumber > 0 then phoneNumber else chat_serialized chat
              | None \<Rightarrow> chat_serialized chat))
      else
        (case (case chat_name chat of
                 Some n \<Rightarrow> if n \<noteq> [] \<and> trim n \<noteq> [] then Some (trim n) else None
               | None \<Rightarrow> None) of
           Some n \<Rightarrow> sanitize n
         | None \<Rightarrow> sanitize (chat_serialized chat)))"

text \<open>
  The second variant computes the name inside \<^verbatim>\<open>processMessage\<close> (lines 397--412),
  from \<^verbatim>\<open>msg.getContact()\<close> and with no handler of its own: a failing lookup is caught
  by the handler of \<^verbatim>\<open>processMessage\<close>.
\<close>

definition filenameBase_B :: "provider \<Rightarrow> chat \<Rightarrow> message \<Rightarrow> error + string" where
  "filenameBase_B env chat msg =
     (if \<not> isGroup chat then
        (case getContact env msg of
           Inl err \<Rightarrow> Inl err
         | Inr contact \<Rightarrow>
             (case contactNameOf contact of
                Some contactName \<Rightarrow>
                  Inr (if contactName \<noteq> [] then sanitize contactName else chat_serialized chat)
              | None \<Rightarrow> Inr (chat_serialized chat)))
      else
        (case chat_name chat of
           Some n \<Rightarrow> Inr (sanitize (if n \<noteq> [] then n else chat_serialized chat))
         | None \<Rightarrow> Inr (sanitize (chat_serialized chat))))"

section \<open>The message processor\<close>

text \<open>The record of lines 232--242; \<open>isoTime\<close> is
  \<^verbatim>\<open>new Date(msg.timestamp * 1000).toISOString()\<close>.\<close>

definition messageDataOf :: "message \<Rightarrow> string \<Rightarrow> messageData" where
  "messageDataOf msg isoTime =
     \<lparr> md_id = msg_id msg,
       md_from = msg_from msg,
       md_to = msg_to msg,
       md_author = (case msg_author msg of
                      Some a \<Rightarrow> if a \<noteq> [] then a else msg_from msg
                    | None \<Rightarrow> msg_from msg),
       md_body = msg_body msg,
       md_timestamp = isoTime,
       md_hasMedia = msg_hasMedia msg,
       md_isSentByMe = msg_fromMe msg,
       md_isViewOnce = (msg_isViewOnce msg \<or> False) \<rparr>"

text \<open>Lines 261--265: the name of the media file and its path.\<close>

definition mediaFilePath :: "provider \<Rightarrow> message \<Rightarrow> path \<Rightarrow> media \<Rightarrow> path" where
  "mediaFilePath env msg mediaDir m =
     (let extension = (case mimeExtension env (mimetype m) of
                         Some x \<Rightarrow> if x \<noteq> [] then x else ''bin''
                       | None \<Rightarrow> ''bin'');
          prefix = (if msg_isViewOnce msg then ''VIEWONCE_'' else '''');
          filename = prefix @ msg_id msg @ ''.'' @ extension
      in mediaDir @ [filename])"

text \<open>
  Lines 249--275, the media step. \<^verbatim>\<open>fs.ensureDir\<close> creates directories and leaves
  every file as it is; it succeeds in the model.
  \<^verbatim>\<open>
  if (config.SAVE_MEDIA && msg.hasMedia) {
      if (msg.isViewOnce) { console.log(...); }
      try {
          await fs.ensureDir(mediaDir);
          const media = await msg.downloadMedia();
          if (media) {
              ...
              const filePath = path.join(mediaDir, filename);
              if (!(await fs.pathExists(filePath))) {
                  await fs.writeFile(filePath, media.data, 'base64');
                  console.log(...);
              }
          }
      } catch (err) { console.error(...); }
  }
  \<close>
\<close>

definition saveMedia :: "provider \<Rightarrow> config \<Rightarrow> state \<Rightarrow> message \<Rightarrow> path \<Rightarrow> string \<Rightarrow> state" where
  "saveMedia env cfg st msg mediaDir filenameBase =
     (if SAVE_MEDIA cfg \<and> msg_hasMedia msg then
        (let st1 = (if msg_isViewOnce msg then logEvent (ViewOnceDetected (msg_id msg)) st else st)
         in case downloadMedia env msg of
              Inl err \<Rightarrow> logEvent (MediaFailed (msg_id msg) err) st1
            | Inr None \<Rightarrow> st1
            | Inr (Some m) \<Rightarrow>
                (let filePath = mediaFilePath env msg mediaDir m
                 in if \<not> pathExists (files st1) filePath
                    then logEvent (MediaSaved (last filePath) filenameBase)
                           (st1\<lparr>files := writeFile (files st1) filePath (media_data m)\<rparr>)
                    else st1))
      else st)"

text \<open>
  Lines 225--246, the log step with its console line.
  \<^verbatim>\<open>
  if (config.SAVE_MESSAGES) {
      const logFile = path.join(contactChatDir, `messages.json`);
      const isDuplicate = await checkDuplicate(logFile, msg.id.id);
      if (!isDuplicate) {
          const messageData = { ... };
          await appendToJson(logFile, messageData);
          console.log(`Saved Log: ${msg.body.substring(0, 15)}... (${filenameBase})`);
      }
  }
  \<close>
\<close>

definition saveText :: "config \<Rightarrow> state \<Rightarrow> message \<Rightarrow> string \<Rightarrow> path \<Rightarrow> string \<Rightarrow> state" where
  "saveText cfg st msg isoTime contactChatDir filenameBase =
     (if SAVE_MESSAGES cfg then
        (let logFile = contactChatDir @ [''messages.json''];
             isDuplicate = checkDuplicate (files st) logFile (msg_id msg)
         in if \<not> isDuplicate
            then logEvent (SavedLog (take 15 (msg_body msg)) filenameBase)
                   (st\<lparr>files := appendToJson (files st) logFile (messageDataOf msg isoTime)\<rparr>)
            else st)
      else st)"

text \<open>
  Lines 214--275 (and 414--475, the same text): the paths, the log step and the media
  step. \<^verbatim>\<open>fs.ensureDir(contactChatDir)\<close> on line 222 creates directories only and
  succeeds in the model, so the only call that can throw outside a handler of its
  own is \<^verbatim>\<open>toISOString\<close> on line 215, before anything is written.
\<close>

definition saveMessage :: "provider \<Rightarrow> config \<Rightarrow> state \<Rightarrow> message \<Rightarrow> string \<Rightarrow> error + state" where
  "saveMessage env cfg st msg filenameBase =
     (case toISOString env (msg_timestamp msg * 1000) of
        Inl err \<Rightarrow> Inl err
      | Inr isoTime \<Rightarrow>
          (let dateStr = splitFirst CHR ''T'' isoTime;
               contactChatDir = [BACKUP_DIR cfg, ''chats'', filenameBase];
               mediaDir = [BACKUP_DIR cfg, ''media'', dateStr, filenameBase];
               st1 = saveText cfg st msg isoTime contactChatDir filenameBase
           in Inr (saveMedia env cfg st1 msg mediaDir filenameBase)))"

text \<open>
  \<^verbatim>\<open>processMessage\<close> of the first variant (lines 204--280). Whatever is thrown inside
  is caught and printed (lines 277--279).
\<close>

definition processMessage :: "provider \<Rightarrow> config \<Rightarrow> state \<Rightarrow> message \<Rightarrow> state" where
  "processMessage env cfg st msg =
     (case getChat env msg of
        Inl err \<Rightarrow> logEvent (ProcessingError err) st
      | Inr chat \<Rightarrow>
          if isGroup chat \<and> \<not> SAVE_GROUPS cfg then st
          else (case saveMessage env cfg st msg (getChatFilenameBase env chat (msg_from msg)) of
                  Inl err \<Rightarrow> logEvent (ProcessingError err) st
                | Inr st' \<Rightarrow> st'))"

text \<open>\<^verbatim>\<open>processMessage\<close> of the second variant (lines 390--480).\<close>

definition processMessage_B :: "provider \<Rightarrow> config \<Rightarrow> state \<Rightarrow> message \<Rightarrow> state" where
  "processMessage_B env cfg st msg =
     (case getChat env msg of
        Inl err \<Rightarrow> logEvent (ProcessingError err) st
      | Inr chat \<Rightarrow>
          if isGroup chat \<and> \<not> SAVE_GROUPS cfg then st
          else (case filenameBase_B env chat msg of
                  Inl err \<Rightarrow> logEvent (ProcessingError err) st
                | Inr filenameBase \<Rightarrow>
                    (case saveMessage env cfg st msg filenameBase of
                       Inl err \<Rightarrow> logEvent (ProcessingError err) st
                     | Inr st' \<Rightarrow> st')))"

section \<open>The sync driver\<close>

text \<open>
  The loop of the first variant (lines 292--309); the pause between two
  conversations is not represented. A fetch that throws leaves the loop, with
  the state as it is at that moment.
  \<^verbatim>\<open>
  for (const chat of chats) {
      if (chat.isGroup && !config.SAVE_GROUPS) continue;
      const messages = await chat.fetchMessages({ limit: limit, fromMe: true });
      for (const msg of messages.reverse()) {
          await processMessage(msg);
      }
      await new Promise(r => setTimeout(r, 500));
  }
  \<close>
\<close>

fun syncChats :: "provider \<Rightarrow> config \<Rightarrow> jsvalue \<Rightarrow> chat list \<Rightarrow> state \<Rightarrow> state \<times> error option" where
  "syncChats env cfg lim [] st = (st, None)"
| "syncChats env cfg lim (chat # chats) st =
     (if isGroup chat \<and> \<not> SAVE_GROUPS cfg then syncChats env cfg lim chats st
      else (case fetchMessages env chat \<lparr>limit = lim, fromMe = Some True\<rparr> of
              Inl err \<Rightarrow> (st, Some err)
            | Inr messages \<Rightarrow>
                syncChats env cfg lim chats (foldl (processMessage env cfg) st (rev messages))))"

text \<open>\<^verbatim>\<open>const limit = config.SYNC_LIMIT || 99999;\<close> (line 288).\<close>

definition syncLimit :: "config \<Rightarrow> jsvalue" where
  "syncLimit cfg = (if truthy (SYNC_LIMIT cfg) then SYNC_LIMIT cfg else Number 99999)"

text \<open>\<^verbatim>\<open>syncRecentMessages\<close> of the first variant (lines 283--313): one handler
  around the whole function (lines 310--312).\<close>

definition syncRecentMessages :: "provider \<Rightarrow> config \<Rightarrow> state \<Rightarrow> state" where
  "syncRecentMessages env cfg st =
     (case getChats env of
        Inl err \<Rightarrow> logEvent (SyncError err) st
      | Inr chats \<Rightarrow>
          (let lim = syncLimit cfg;
               st1 = logEvent (FoundChats (length chats) lim) st
           in case syncChats env cfg lim chats st1 of
                (st2, Some err) \<Rightarrow> logEvent (SyncError err) st2
              | (st2, None) \<Rightarrow> st2))"

text \<open>
  The second variant (lines 482--505): the default limit is 50, the options carry no
  \<^verbatim>\<open>fromMe\<close>, and the messages are replayed in the order of the provider.
  \<^verbatim>\<open>
  for (const chat of chats) {
      if (chat.isGroup && !config.SAVE_GROUPS) continue;
      const limit = config.SYNC_LIMIT || 50;
      const messages = await chat.fetchMessages({ limit: limit });
      for (const msg of messages) {
          await processMessage(msg);
      }
      await new Promise(r => setTimeout(r, 500));
  }
  \<close>
\<close>

definition syncLimit_B :: "config \<Rightarrow> jsvalue" where
  "syncLimit_B cfg = (if truthy (SYNC_LIMIT cfg) then SYNC_LIMIT cfg else Number 50)"

fun syncChats_B :: "provider \<Rightarrow> config \<Rightarrow> chat list \<Rightarrow> state \<Rightarrow> state \<times> error option" where
  "syncChats_B env cfg [] st = (st, None)"
| "syncChats_B env cfg (chat # chats) st =
     (if isGroup chat \<and> \<not> SAVE_GROUPS cfg then syncChats_B env cfg chats st
      else (let lim = syncLimit_B cfg
            in case fetchMessages env chat \<lparr>limit = lim, fromMe = None\<rparr> of
                 Inl err \<Rightarrow> (st, Some err)
               | Inr messages \<Rightarrow>
                   syncChats_B env cfg chats (foldl (processMessage_B env cfg) st messages)))"

definition syncRecentMessages_B :: "provider \<Rightarrow> config \<Rightarrow> state \<Rightarrow> state" where
  "syncRecentMessages_B env cfg st =
     (case getChats env of
        Inl err \<Rightarrow> logEvent (SyncError err) st
      | Inr chats \<Rightarrow>
          (let st1 = logEvent (FoundChats (length chats) (syncLimit_B cfg)) st
           in case syncChats_B env cfg chats st1 of
                (st2, Some err) \<Rightarrow> logEvent (SyncError err) st2
              | (st2, None) \<Rightarrow> st2))"

section \<open>The effect of a message on the disk\<close>

text \<open>The media step of \<open>saveMedia\<close> as it acts on the disk, the console left out.\<close>

definition storeMedia :: "provider \<Rightarrow> config \<Rightarrow> filesystem \<Rightarrow> message \<Rightarrow> path \<Rightarrow> filesystem" where
  "storeMedia env cfg fs msg mediaDir =
     (if SAVE_MEDIA cfg \<and> msg_hasMedia msg then
        (case downloadMedia env msg of
           Inl err \<Rightarrow> fs
         | Inr None \<Rightarrow> fs
         | Inr (Some m) \<Rightarrow>
             (let filePath = mediaFilePath env msg mediaDir m
              in if \<not> pathExists fs filePath then writeFile fs filePath (media_data m) else fs))
      else fs)"

section \<open>The viewer\<close>

text \<open>
  The viewer prints lines and closes its \<^verbatim>\<open>readline\<close> interface. It reads the listing
  of the backup directory (\<^verbatim>\<open>fs.readdir(backupDir)\<close>), at most one line typed by the
  user, and the log of the selected conversation; \<^verbatim>\<open>parseInt\<close> is the built-in
  function, \<open>None\<close> standing for \<^verbatim>\<open>NaN\<close>.
\<close>

datatype line =
    NoChatsFound
  | AvailableChats
  | ChatEntry nat string
  | SelectPrompt
  | InvalidSelection
  | NoMessagesFound
  | ChatHeader string
  | MessageShown nat messageData
  | TotalMessages nat
  | ErrorReadingChats error
  | ErrorDisplayingChat error

record terminal =
  printed :: "line list"
  closed :: bool

record viewerInput =
  readdir :: "error + string list"
  answer :: "string option"
  parseInt :: "string \<Rightarrow> int option"

definition display :: "line list \<Rightarrow> terminal \<Rightarrow> terminal" where
  "display ls t = t\<lparr>printed := printed t @ ls\<rparr>"

definition rlClose :: "terminal \<Rightarrow> terminal" where
  "rlClose t = t\<lparr>closed := True\<rparr>"

text \<open>\<^verbatim>\<open>displayChat\<close> (lines 49--86).\<close>

definition displayChat :: "filesystem \<Rightarrow> path \<Rightarrow> string \<Rightarrow> terminal \<Rightarrow> terminal" where
  "displayChat fs backupDir chatName t =
     (let messagesFile = backupDir @ [chatName, ''messages.json'']
      in if \<not> pathExists fs messagesFile then rlClose (display [NoMessagesFound] t)
         else (case readJson fs messagesFile of
                 Inl err \<Rightarrow> rlClose (display [ErrorDisplayingChat err] t)
               | Inr messages \<Rightarrow>
                   rlClose (display
                     ([ChatHeader chatName]
                      @ map (\<lambda>(index, msg). MessageShown (index + 1) msg) (enumerate 0 messages)
                      @ [TotalMessages (length messages)]) t)))"

text \<open>
  \<^verbatim>\<open>listChats\<close> (lines 12--47).
  \<^verbatim>\<open>
  try {
      const chatFolders = await fs.readdir(backupDir);
      if (chatFolders.length === 0) {
          console.log('No chats found. Start the backup tool first!');
          rl.close();
          return;
      }
      console.log('Available Chats:');
      chatFolders.forEach((folder, index) => { console.log(`${index + 1}. ${folder}`); });
      rl.question('Select a chat number to view (or 0 to exit): ', async (answer) => {
          const num = parseInt(answer);
          if (num === 0) { rl.close(); return; }
          if (num > 0 && num <= chatFolders.length) {
              const selectedChat = chatFolders[num - 1];
              await displayChat(selectedChat);
          } else {
              console.log('Invalid selection!');
              rl.close();
          }
      });
  } catch (err) {
      console.error('Error reading chats:', err.message);
      rl.close();
  }
  \<close>
\<close>

definition listChats :: "viewerInput \<Rightarrow> filesystem \<Rightarrow> path \<Rightarrow> terminal" where
  "listChats inp fs backupDir =
     (let t0 = \<lparr>printed = [], closed = False\<rparr>
      in case readdir inp of
           Inl err \<Rightarrow> rlClose (display [ErrorReadingChats err] t0)
         | Inr chatFolders \<Rightarrow>
             if length chatFolders = 0 then rlClose (display [NoChatsFound] t0)
             else
               (let t1 = display
                     (AvailableChats
                      # map (\<lambda>(index, folder). ChatEntry (index + 1) folder) (enumerate 0 chatFolders)
                      @ [SelectPrompt]) t0
                in case answer inp of
                     None \<Rightarrow> t1
                   | Some a \<Rightarrow>
                       (case parseInt inp a of
                          None \<Rightarrow> rlClose (display [InvalidSelection] t1)
                        | Some num \<Rightarrow>
                            if num = 0 then rlClose t1
                            else if num > 0 \<and> num \<le> int (length chatFolders)
                            then displayChat fs backupDir (chatFolders ! nat (num - 1)) t1
                            else rlClose (display [InvalidSelection] t1))))"

text \<open>
  Nothing in the viewer calls \<^verbatim>\<open>process.exit\<close> and every statement of it runs inside a
  handler, so the process ends, with status 0, as soon as the interface is closed;
  until then it waits for input.
\<close>

definition exitCode :: "terminal \<Rightarrow> nat option" where
  "exitCode t = (if closed t then Some 0 else None)"

definition isErrorLine :: "line \<Rightarrow> bool" where
  "isErrorLine l = (case l of ErrorReadingChats e \<Rightarrow> True | ErrorDisplayingChat e \<Rightarrow> True | _ \<Rightarrow> False)"

section \<open>Sample data\<close>

text \<open>A configuration, conversations, messages and a provider on which the functions
  above are evaluated further down.\<close>

definition demoConfig :: config where
  "demoConfig =
     \<lparr> HEADLESS = True, SAVE_GROUPS = False, SAVE_MESSAGES = True, SAVE_MEDIA = True,
       BACKUP_DIR = ''backup'', SYNC_LIMIT = Number 0 \<rparr>"

definition demoChat :: "string \<Rightarrow> chat" where
  "demoChat number =
     \<lparr> chat_serialized = number @ ''@c.us'', chat_user = Some number, isGroup = False,
       chat_name = None \<rparr>"

definition demoMessage :: "string \<Rightarrow> string \<Rightarrow> message" where
  "demoMessage number i =
     \<lparr> msg_id = i, msg_from = number @ ''@c.us'', msg_to = ''me@c.us'', msg_author = None,
       msg_body = ''hello'', msg_timestamp = 1700000000, msg_hasMedia = False,
       msg_fromMe = False, msg_isViewOnce = False \<rparr>"

definition demoRecord :: "string \<Rightarrow> messageData" where
  "demoRecord i = messageDataOf (demoMessage ''15550001'' i) ''2023-11-14T22:13:20.000Z''"

definition demoMedia :: media where
  "demoMedia = \<lparr> mimetype = ''image/jpeg'', media_data = ''/9j/4AAQSkZJRg=='' \<rparr>"

definition demoProvider :: "(chat \<times> (error + message list)) list \<Rightarrow> provider" where
  "demoProvider histories =
     \<lparr> getChats = Inr (map fst histories),
       fetchMessages = (\<lambda>c opts. case map_of histories c of Some r \<Rightarrow> r | None \<Rightarrow> Inr []),
       getContactById = (\<lambda>i. Inr \<lparr> contact_name = None, contact_pushname = None,
                                   contact_user = Some (splitFirst CHR ''@'' i) \<rparr>),
       getChat = (\<lambda>m. Inr (demoChat (splitFirst CHR ''@'' (msg_from m)))),
       getContact = (\<lambda>m. Inr \<lparr> contact_name = None, contact_pushname = None,
                               contact_user = Some (splitFirst CHR ''@'' (msg_from m)) \<rparr>),
       downloadMedia = (\<lambda>m. Inr (Some demoMedia)),
       toISOString = (\<lambda>ms. Inr ''2023-11-14T22:13:20.000Z''),
       mimeExtension = (\<lambda>t. if t = ''image/jpeg'' then Some ''jpeg'' else None) \<rparr>"

definition demoLog :: path where
  "demoLog = [''backup'', ''chats'', ''15550001'', ''messages.json'']"

definition emptyState :: state where
  "emptyState = \<lparr> files = Map.empty, console = [] \<rparr>"

text \<open>A conversation with one contact whose lookup fails, and a provider for it.\<close>

definition strangerChat :: chat where
  "strangerChat =
     \<lparr> chat_serialized = ''15551234567@c.us'', chat_user = None, isGroup = False,
       chat_name = None \<rparr>"

definition failingLookup :: provider where
  "failingLookup = (demoProvider []) \<lparr> getContactById := (\<lambda>i. Inl (Failure ''lookup failed'')) \<rparr>"

definition teamChat :: chat where
  "teamChat =
     \<lparr> chat_serialized = ''120363041234567890@g.us'', chat_user = Some ''120363041234567890'',
       isGroup = True, chat_name = Some '' Team #1 '' \<rparr>"

text \<open>A provider whose first conversation cannot be fetched, and the same provider
  without that conversation.\<close>

definition brokenFirst :: provider where
  "brokenFirst =
     demoProvider
       [(demoChat ''15550000'', Inl (Failure ''timeout'')),
        (demoChat ''15550001'', Inr [demoMessage ''15550001'' ''1''])]"

definition onlySecond :: provider where
  "onlySecond = demoProvider [(demoChat ''15550001'', Inr [demoMessage ''15550001'' ''1''])]"

text \<open>A provider that returns the ids 3, 2, 1 for its one conversation.\<close>

definition newestFirst :: provider where
  "newestFirst =
     demoProvider
       [(demoChat ''15550001'',
         Inr [demoMessage ''15550001'' ''3'', demoMessage ''15550001'' ''2'',
              demoMessage ''15550001'' ''1''])]"

text \<open>A message that carries a picture.\<close>

definition photoMessage :: message where
  "photoMessage = (demoMessage ''15550001'' ''A1'') \<lparr> msg_hasMedia := True \<rparr>"

definition photoPath :: path where
  "photoPath = [''backup'', ''media'', ''2023-11-14'', ''15550001'', ''A1.jpeg'']"

text \<open>A backup directory with nothing in it, and no line typed.\<close>

definition emptyBackup :: viewerInput where
  "emptyBackup = \<lparr> readdir = Inr [], answer = None, parseInt = (\<lambda>s. None) \<rparr>"

text \<open>
  The course of a sync pass over conversations whose histories can be fetched, written
  out for reference: every conversation that is not skipped is fetched with the given
  limit, and its messages are processed, oldest first in the first variant and in the
  order of the provider in the second.
\<close>

definition replayChats :: "provider \<Rightarrow> config \<Rightarrow> jsvalue \<Rightarrow> state \<Rightarrow> chat list \<Rightarrow> state" where
  "replayChats env cfg lim st chats =
     foldl (\<lambda>s chat.
              if isGroup chat \<and> \<not> SAVE_GROUPS cfg then s
              else (case fetchMessages env chat \<lparr>limit = lim, fromMe = Some True\<rparr> of
                      Inr messages \<Rightarrow> foldl (processMessage env cfg) s (rev messages)
                    | Inl err \<Rightarrow> s))
       st chats"

definition replayChats_B :: "provider \<Rightarrow> config \<Rightarrow> jsvalue \<Rightarrow> state \<Rightarrow> chat list \<Rightarrow> state" where
  "replayChats_B env cfg lim st chats =
     foldl (\<lambda>s chat.
              if isGroup chat \<and> \<not> SAVE_GROUPS cfg then s
              else (case fetchMessages env chat \<lparr>limit = lim, fromMe = None\<rparr> of
                      Inr messages \<Rightarrow> foldl (processMessage_B env cfg) s messages
                    | Inl err \<Rightarrow> s))
       st chats"

text \<open>A provider whose second conversation cannot be fetched, between two that can.\<close>

definition brokenSecond :: provider where
  "brokenSecond =
     demoProvider
       [(demoChat ''15550001'', Inr [demoMessage ''15550001'' ''1'']),
        (demoChat ''15550000'', Inl (Failure ''timeout'')),
        (demoChat ''15550002'', Inr [demoMessage ''15550002'' ''2''])]"

definition demoLog2 :: path where
  "demoLog2 = [''backup'', ''chats'', ''15550002'', ''messages.json'']"

text \<open>A provider with one conversation that hands out as many messages as it is asked
  for: none for the limit 0, its one message for any other limit.\<close>

definition limitSensitive :: provider where
  "limitSensitive =
     (demoProvider [])
       \<lparr> getChats := Inr [demoChat ''15550001''],
         fetchMessages := (\<lambda>c opts. if limit opts = Number 0 then Inr []
                                     else Inr [demoMessage ''15550001'' ''1'']) \<rparr>"

section \<open>Facts about the log\<close>

lemma loadData_cases:
  "loadData fs p = (case fs p of Some (JsonLog data) \<Rightarrow> data | _ \<Rightarrow> [])"
  by (simp add: loadData_def pathExists_def readJson_def split: option.splits fileContent.splits)

lemma checkDuplicate_loadData:
  "checkDuplicate fs p i = (i \<in> md_id ` set (loadData fs p))"
proof (cases "fs p")
  case None
  then show ?thesis
    by (simp add: checkDuplicate_def loadData_def pathExists_def)
next
  case (Some f)
  then show ?thesis
    by (cases f)
      (auto simp: checkDuplicate_def loadData_def pathExists_def readJson_def list_ex_iff)
qed

lemma saveLog_loadData:
  "loadData (saveLog fs p m) p =
     (if md_id m \<in> md_id ` set (loadData fs p) then loadData fs p else loadData fs p @ [m])"
proof (cases "md_id m \<in> md_id ` set (loadData fs p)")
  case True
  then show ?thesis
    by (simp add: saveLog_def checkDuplicate_loadData)
next
  case False
  then have "loadData fs p = [] \<or> md_id (last (loadData fs p)) \<noteq> md_id m"
    by (metis image_eqI last_in_set)
  then have "appendToJson fs p m = fs(p \<mapsto> JsonLog (loadData fs p @ [m]))"
    by (auto simp: appendToJson_def writeJson_def Let_def last_conv_nth)
  with False show ?thesis
    by (simp add: saveLog_def checkDuplicate_loadData loadData_cases)
qed

lemma saveLog_file:
  "saveLog fs p m p = Some (JsonLog (loadData (saveLog fs p m) p))"
proof (cases "fs p")
  case None
  then show ?thesis
    by (simp add: saveLog_def checkDuplicate_loadData appendToJson_def writeJson_def loadData_cases)
next
  case (Some f)
  then show ?thesis
    by (cases f)
      (auto simp: saveLog_def checkDuplicate_loadData appendToJson_def writeJson_def
        loadData_cases Let_def)
qed

lemma find_snoc:
  "find P (xs @ [x]) = (case find P xs of Some y \<Rightarrow> Some y | None \<Rightarrow> if P x then Some x else None)"
  by (induction xs) auto

lemma replay_loadData:
  assumes "loadData fs p = []"
  shows "distinct (map md_id (loadData (foldl (\<lambda>fs' m. saveLog fs' p m) fs msgs) p))
       \<and> map md_id (loadData (foldl (\<lambda>fs' m. saveLog fs' p m) fs msgs) p)
           = rev (remdups (rev (map md_id msgs)))
       \<and> (\<forall>r \<in> set (loadData (foldl (\<lambda>fs' m. saveLog fs' p m) fs msgs) p).
             find (\<lambda>x. md_id x = md_id r) msgs = Some r)"
proof (induction msgs rule: rev_induct)
  case Nil
  show ?case using assms by simp
next
  case (snoc m msgs)
  let ?fs = "foldl (\<lambda>fs' m. saveLog fs' p m) fs msgs"
  let ?D = "loadData ?fs p"
  have ids: "md_id ` set ?D = md_id ` set msgs"
  proof -
    have "set (map md_id ?D) = set (rev (remdups (rev (map md_id msgs))))"
      using snoc.IH by simp
    then show ?thesis by simp
  qed
  have step: "loadData (foldl (\<lambda>fs' m. saveLog fs' p m) fs (msgs @ [m])) p =
      (if md_id m \<in> md_id ` set msgs then ?D else ?D @ [m])"
    by (simp add: saveLog_loadData ids)
  show ?case
  proof (cases "md_id m \<in> md_id ` set msgs")
    case True
    have "\<forall>r \<in> set ?D. find (\<lambda>x. md_id x = md_id r) (msgs @ [m]) = Some r"
      using snoc.IH by (simp add: find_snoc)
    with True snoc.IH show ?thesis
      unfolding step by simp
  next
    case False
    have "md_id x \<noteq> md_id m" if "x \<in> set msgs" for x
    proof -
      from that have "md_id x \<in> md_id ` set msgs" by (rule imageI)
      with False show ?thesis by auto
    qed
    then have new: "find (\<lambda>x. md_id x = md_id m) msgs = None"
      by (simp add: find_None_iff)
    have old: "\<forall>r \<in> set ?D. find (\<lambda>x. md_id x = md_id r) (msgs @ [m]) = Some r"
      using snoc.IH by (simp add: find_snoc)
    have "md_id m \<notin> set (map md_id ?D)"
      using False ids by simp
    with False snoc.IH old new show ?thesis
      unfolding step by (simp add: find_snoc)
  qed
qed

lemma replay_file:
  "msgs \<noteq> [] \<Longrightarrow>
   foldl (\<lambda>fs' m. saveLog fs' p m) fs msgs p =
     Some (JsonLog (loadData (foldl (\<lambda>fs' m. saveLog fs' p m) fs msgs) p))"
  by (induction msgs rule: rev_induct) (simp_all add: saveLog_file)

lemma loadData_cong: "fs p = fs' p \<Longrightarrow> loadData fs p = loadData fs' p"
  by (simp add: loadData_cases)

lemma saveLog_again:
  assumes "fs' logFile = saveLog fs logFile r logFile"
  shows "saveLog fs' logFile r = fs'"
proof -
  have "loadData fs' logFile = loadData (saveLog fs logFile r) logFile"
    using assms by (rule loadData_cong)
  then have "md_id r \<in> md_id ` set (loadData fs' logFile)"
    by (simp add: saveLog_loadData)
  then show ?thesis
    by (simp add: saveLog_def checkDuplicate_loadData)
qed

lemma md_id_demoRecord: "md_id (demoRecord i) = i"
  by (simp add: demoRecord_def messageDataOf_def demoMessage_def)

section \<open>Facts about sanitised names\<close>

lemma safeChar_underscore: "safeChar CHR ''_''"
  by (simp add: safeChar_def)

lemma replaceUnsafe_safe: "c \<in> set (replaceUnsafe s) \<Longrightarrow> safeChar c"
  by (auto simp: replaceUnsafe_def safeChar_underscore)

lemma replaceUnsafe_nth:
  "i < length s \<Longrightarrow> replaceUnsafe s ! i = (if safeChar (s ! i) then s ! i else CHR ''_'')"
  by (simp add: replaceUnsafe_def)

lemma set_trim: "set (trim s) \<subseteq> set s"
proof -
  have "set (dropWhile isWhiteSpace (rev (dropWhile isWhiteSpace s))) \<subseteq> set (rev (dropWhile isWhiteSpace s))"
    by (rule set_dropWhileD [THEN subsetI]) 
  also have "\<dots> \<subseteq> set s"
    using set_dropWhileD by fastforce
  finally show ?thesis by (simp add: trim_def)
qed

lemma sanitize_safe: "c \<in> set (sanitize s) \<Longrightarrow> safeChar c"
  using set_trim [of "replaceUnsafe s"] replaceUnsafe_safe [of c s]
  by (auto simp: sanitize_def)

lemma trim_last: "trim s \<noteq> [] \<Longrightarrow> \<not> isWhiteSpace (last (trim s))"
proof -
  assume ne: "trim s \<noteq> []"
  let ?d = "dropWhile isWhiteSpace (rev (dropWhile isWhiteSpace s))"
  from ne have "?d \<noteq> []" by (simp add: trim_def)
  then have "\<not> isWhiteSpace (hd ?d)" by (rule hd_dropWhile)
  moreover have "last (trim s) = hd ?d"
    using \<open>?d \<noteq> []\<close> by (simp add: trim_def last_rev)
  ultimately show ?thesis by simp
qed

lemma trim_hd: "trim s \<noteq> [] \<Longrightarrow> \<not> isWhiteSpace (hd (trim s))"
proof -
  assume ne: "trim s \<noteq> []"
  let ?u = "dropWhile isWhiteSpace s"
  have split: "?u = trim s @ rev (takeWhile isWhiteSpace (rev ?u))"
    unfolding trim_def by (metis rev_append rev_rev_ident takeWhile_dropWhile_id)
  have "?u \<noteq> []"
  proof
    assume e: "?u = []"
    have "trim s = rev (dropWhile isWhiteSpace (rev ?u))"
      by (simp only: trim_def)
    also have "\<dots> = []"
      unfolding e by simp
    finally show False using ne by simp
  qed
  then have "\<not> isWhiteSpace (hd ?u)" by (rule hd_dropWhile)
  moreover from split ne have "hd ?u = hd (trim s)"
    by (metis hd_append2)
  ultimately show ?thesis by simp
qed

lemma trim_Nil: "trim [] = []"
  by (simp add: trim_def)

lemma trim_idem: "trim (trim s) = trim s"
proof (cases "trim s = []")
  case True
  then show ?thesis by (simp add: trim_Nil)
next
  case False
  have a: "dropWhile isWhiteSpace (trim s) = trim s"
    using trim_hd [OF False] False by (cases "trim s") auto
  have b: "dropWhile isWhiteSpace (rev (trim s)) = rev (trim s)"
    using trim_last [OF False] False by (cases "rev (trim s)") (auto simp: last_rev hd_rev)
  show ?thesis
    unfolding trim_def [of "trim s"] a b by simp
qed

lemma sanitized_ends:
  "sanitize s \<noteq> [] \<Longrightarrow> \<not> isWhiteSpace (hd (sanitize s)) \<and> \<not> isWhiteSpace (last (sanitize s))"
  unfolding sanitize_def using trim_hd trim_last by blast

section \<open>Facts about the message processor\<close>

lemma files_logEvent: "files (logEvent e st) = files st"
  by (simp add: logEvent_def)

lemma saveText_files:
  "files (saveText cfg st msg isoTime dir base) =
     (if SAVE_MESSAGES cfg
      then saveLog (files st) (dir @ [''messages.json'']) (messageDataOf msg isoTime)
      else files st)"
  by (simp add: saveText_def saveLog_def Let_def messageDataOf_def files_logEvent)

lemma saveMedia_files:
  "files (saveMedia env cfg st msg dir base) = storeMedia env cfg (files st) msg dir"
  by (simp add: saveMedia_def storeMedia_def Let_def files_logEvent split: sum.splits option.splits)

lemma storeMedia_idem:
  "storeMedia env cfg (storeMedia env cfg fs msg dir) msg dir = storeMedia env cfg fs msg dir"
  by (simp add: storeMedia_def pathExists_def writeFile_def Let_def split: sum.splits option.splits)

lemma storeMedia_existing:
  "pathExists fs p \<Longrightarrow> storeMedia env cfg fs msg dir p = fs p"
  by (auto simp: storeMedia_def pathExists_def writeFile_def Let_def split: sum.splits option.splits)

lemma length_mediaFilePath: "length (mediaFilePath env msg dir m) = Suc (length dir)"
  by (simp add: mediaFilePath_def Let_def)

lemma storeMedia_elsewhere:
  "length p \<noteq> Suc (length dir) \<Longrightarrow> storeMedia env cfg fs msg dir p = fs p"
  using length_mediaFilePath [of env msg dir]
  by (auto simp: storeMedia_def writeFile_def Let_def split: sum.splits option.splits)

lemma storeMedia_result:
  assumes "SAVE_MEDIA cfg" "msg_hasMedia msg" "downloadMedia env msg = Inr (Some m)"
  shows "storeMedia env cfg fs msg dir =
     (if pathExists fs (mediaFilePath env msg dir m) then fs
      else fs(mediaFilePath env msg dir m \<mapsto> Other (media_data m)))"
  using assms by (simp add: storeMedia_def writeFile_def Let_def)

lemma saveMessage_files:
  assumes "toISOString env (msg_timestamp msg * 1000) = Inr isoTime"
  shows "\<exists>st'. saveMessage env cfg st msg base = Inr st'
     \<and> files st' =
         storeMedia env cfg
           (if SAVE_MESSAGES cfg
            then saveLog (files st) [BACKUP_DIR cfg, ''chats'', base, ''messages.json'']
                   (messageDataOf msg isoTime)
            else files st)
           msg [BACKUP_DIR cfg, ''media'', splitFirst CHR ''T'' isoTime, base]"
  using assms by (simp add: saveMessage_def Let_def saveMedia_files saveText_files)

lemma saveMessage_Inl:
  "toISOString env (msg_timestamp msg * 1000) = Inl e \<Longrightarrow> saveMessage env cfg st msg base = Inl e"
  by (simp add: saveMessage_def)

lemma saveMessage_twice:
  assumes "saveMessage env cfg st msg base = Inr st'"
  shows "\<exists>st''. saveMessage env cfg st' msg base = Inr st'' \<and> files st'' = files st'"
proof (cases "toISOString env (msg_timestamp msg * 1000)")
  case (Inl e)
  with assms show ?thesis by (simp add: saveMessage_def)
next
  case (Inr isoTime)
  let ?logFile = "[BACKUP_DIR cfg, ''chats'', base, ''messages.json'']"
  let ?dir = "[BACKUP_DIR cfg, ''media'', splitFirst CHR ''T'' isoTime, base]"
  let ?r = "messageDataOf msg isoTime"
  let ?T = "\<lambda>fs. if SAVE_MESSAGES cfg then saveLog fs ?logFile ?r else fs"
  from saveMessage_files [OF Inr, of cfg st base] assms
  have one: "files st' = storeMedia env cfg (?T (files st)) msg ?dir" by simp
  from saveMessage_files [OF Inr, of cfg st' base]
  obtain st'' where two: "saveMessage env cfg st' msg base = Inr st''"
    "files st'' = storeMedia env cfg (?T (files st')) msg ?dir" by blast
  have "files st' ?logFile = ?T (files st) ?logFile"
    unfolding one by (simp add: storeMedia_elsewhere)
  then have "?T (files st') = files st'"
    by (simp add: saveLog_again)
  then have "files st'' = storeMedia env cfg (files st') msg ?dir"
    using two by simp
  also have "\<dots> = files st'"
    unfolding one by (rule storeMedia_idem)
  finally show ?thesis using two by blast
qed

lemma processMessage_twice:
  "files (processMessage env cfg (processMessage env cfg st msg) msg) = files (processMessage env cfg st msg)"
proof (cases "getChat env msg")
  case (Inl e)
  then show ?thesis by (simp add: processMessage_def files_logEvent)
next
  case (Inr chat)
  show ?thesis
  proof (cases "isGroup chat \<and> \<not> SAVE_GROUPS cfg")
    case True
    with Inr show ?thesis by (simp add: processMessage_def)
  next
    case False
    let ?base = "getChatFilenameBase env chat (msg_from msg)"
    show ?thesis
    proof (cases "saveMessage env cfg st msg ?base")
      case (Inl e)
      then have "toISOString env (msg_timestamp msg * 1000) = Inl e"
        by (simp add: saveMessage_def split: sum.splits)
      then have "saveMessage env cfg st0 msg ?base = Inl e" for st0
        by (rule saveMessage_Inl)
      with Inr False show ?thesis
        by (simp add: processMessage_def files_logEvent)
    next
      case (Inr st')
      from saveMessage_twice [OF Inr]
      obtain st'' where "saveMessage env cfg st' msg ?base = Inr st''" "files st'' = files st'"
        by blast
      with Inr \<open>getChat env msg = Inr chat\<close> False show ?thesis
        by (simp add: processMessage_def)
    qed
  qed
qed

section \<open>Facts about the sync driver\<close>

text \<open>
  A fetch that throws ends the loop: the conversations behind it play no part in
  the result.
\<close>

lemma syncChats_stops:
  assumes "\<not> (isGroup c \<and> \<not> SAVE_GROUPS cfg)"
    and "fetchMessages env c \<lparr>limit = lim, fromMe = Some True\<rparr> = Inl e"
  shows "syncChats env cfg lim (cs1 @ c # cs2) st = syncChats env cfg lim (cs1 @ [c]) st
       \<and> snd (syncChats env cfg lim (cs1 @ [c]) st) \<noteq> None"
  using assms by (induction cs1 arbitrary: st) (auto split: sum.splits)

lemma syncChats_B_stops:
  assumes "\<not> (isGroup c \<and> \<not> SAVE_GROUPS cfg)"
    and "fetchMessages env c \<lparr>limit = syncLimit_B cfg, fromMe = None\<rparr> = Inl e"
  shows "syncChats_B env cfg (cs1 @ c # cs2) st = syncChats_B env cfg (cs1 @ [c]) st
       \<and> snd (syncChats_B env cfg (cs1 @ [c]) st) \<noteq> None"
  using assms by (induction cs1 arbitrary: st) (auto simp: Let_def split: sum.splits)

text \<open>
  With one conversation, the first variant replays the fetched list reversed and the
  second variant replays it as it came.
\<close>

lemma sync_single_chat:
  assumes "getChats env = Inr [chat]" "\<not> (isGroup chat \<and> \<not> SAVE_GROUPS cfg)"
    and "fetchMessages env chat \<lparr>limit = syncLimit cfg, fromMe = Some True\<rparr> = Inr messages"
  shows "syncRecentMessages env cfg st =
     foldl (processMessage env cfg) (logEvent (FoundChats 1 (syncLimit cfg)) st) (rev messages)"
  using assms by (auto simp: syncRecentMessages_def Let_def)

lemma sync_B_single_chat:
  assumes "getChats env = Inr [chat]" "\<not> (isGroup chat \<and> \<not> SAVE_GROUPS cfg)"
    and "fetchMessages env chat \<lparr>limit = syncLimit_B cfg, fromMe = None\<rparr> = Inr messages"
  shows "syncRecentMessages_B env cfg st =
     foldl (processMessage_B env cfg) (logEvent (FoundChats 1 (syncLimit_B cfg)) st) messages"
  using assms by (auto simp: syncRecentMessages_B_def Let_def)

lemma sync_newest_first:
  "map md_id (loadData (files (syncRecentMessages newestFirst demoConfig emptyState)) demoLog)
     = [''1'', ''2'', ''3'']"
  by code_simp

text \<open>
  Nothing below \<open>syncRecentMessages\<close> reads \<open>SYNC_LIMIT\<close>.
\<close>

lemma saveMessage_limit:
  "saveMessage env (cfg\<lparr>SYNC_LIMIT := v\<rparr>) st msg base = saveMessage env cfg st msg base"
  by (simp add: saveMessage_def saveText_def saveMedia_def Let_def split: sum.splits)

lemma processMessage_limit:
  "processMessage env (cfg\<lparr>SYNC_LIMIT := v\<rparr>) = processMessage env cfg"
  by (intro ext) (simp add: processMessage_def saveMessage_limit split: sum.splits)

lemma processMessage_B_limit:
  "processMessage_B env (cfg\<lparr>SYNC_LIMIT := v\<rparr>) = processMessage_B env cfg"
  by (intro ext) (simp add: processMessage_B_def saveMessage_limit split: sum.splits)

lemma syncChats_limit:
  "syncChats env (cfg\<lparr>SYNC_LIMIT := v\<rparr>) lim cs st = syncChats env cfg lim cs st"
  by (induction cs arbitrary: st) (simp_all add: processMessage_limit split: sum.splits)

lemma syncChats_B_limit:
  "syncLimit_B (cfg\<lparr>SYNC_LIMIT := v\<rparr>) = syncLimit_B cfg \<Longrightarrow>
   syncChats_B env (cfg\<lparr>SYNC_LIMIT := v\<rparr>) cs st = syncChats_B env cfg cs st"
  by (induction cs arbitrary: st) (simp_all add: processMessage_B_limit split: sum.splits)

text \<open>
  As long as every conversation is skipped or fetched, the loop does what the reference
  course does; the first fetch that throws ends the pass in the state reached by then.
\<close>

lemma replayChats_Cons:
  "replayChats env cfg lim st (ch # cs) =
     replayChats env cfg lim
       (if isGroup ch \<and> \<not> SAVE_GROUPS cfg then st
        else (case fetchMessages env ch \<lparr>limit = lim, fromMe = Some True\<rparr> of
                Inr messages \<Rightarrow> foldl (processMessage env cfg) st (rev messages)
              | Inl err \<Rightarrow> st)) cs"
  by (simp add: replayChats_def)

lemma replayChats_B_Cons:
  "replayChats_B env cfg lim st (ch # cs) =
     replayChats_B env cfg lim
       (if isGroup ch \<and> \<not> SAVE_GROUPS cfg then st
        else (case fetchMessages env ch \<lparr>limit = lim, fromMe = None\<rparr> of
                Inr messages \<Rightarrow> foldl (processMessage_B env cfg) st messages
              | Inl err \<Rightarrow> st)) cs"
  by (simp add: replayChats_B_def)

lemma syncChats_prefix:
  assumes "\<forall>ch \<in> set cs1. (isGroup ch \<and> \<not> SAVE_GROUPS cfg)
             \<or> (\<exists>ms. fetchMessages env ch \<lparr>limit = lim, fromMe = Some True\<rparr> = Inr ms)"
  shows "syncChats env cfg lim (cs1 @ rest) st
       = syncChats env cfg lim rest (replayChats env cfg lim st cs1)"
  using assms
proof (induction cs1 arbitrary: st)
  case Nil
  show ?case by (simp add: replayChats_def)
next
  case (Cons ch cs1)
  from Cons.prems have rest: "\<forall>ch \<in> set cs1. (isGroup ch \<and> \<not> SAVE_GROUPS cfg)
             \<or> (\<exists>ms. fetchMessages env ch \<lparr>limit = lim, fromMe = Some True\<rparr> = Inr ms)"
    by simp
  from Cons.prems have here: "(isGroup ch \<and> \<not> SAVE_GROUPS cfg)
             \<or> (\<exists>ms. fetchMessages env ch \<lparr>limit = lim, fromMe = Some True\<rparr> = Inr ms)"
    by simp
  show ?case
    using here Cons.IH [OF rest]
    by (cases "isGroup ch"; cases "SAVE_GROUPS cfg") (auto simp: replayChats_Cons)
qed

lemma syncChats_B_prefix:
  assumes "\<forall>ch \<in> set cs1. (isGroup ch \<and> \<not> SAVE_GROUPS cfg)
             \<or> (\<exists>ms. fetchMessages env ch \<lparr>limit = syncLimit_B cfg, fromMe = None\<rparr> = Inr ms)"
  shows "syncChats_B env cfg (cs1 @ rest) st
       = syncChats_B env cfg rest (replayChats_B env cfg (syncLimit_B cfg) st cs1)"
  using assms
proof (induction cs1 arbitrary: st)
  case Nil
  show ?case by (simp add: replayChats_B_def)
next
  case (Cons ch cs1)
  from Cons.prems have rest: "\<forall>ch \<in> set cs1. (isGroup ch \<and> \<not> SAVE_GROUPS cfg)
             \<or> (\<exists>ms. fetchMessages env ch \<lparr>limit = syncLimit_B cfg, fromMe = None\<rparr> = Inr ms)"
    by simp
  from Cons.prems have here: "(isGroup ch \<and> \<not> SAVE_GROUPS cfg)
             \<or> (\<exists>ms. fetchMessages env ch \<lparr>limit = syncLimit_B cfg, fromMe = None\<rparr> = Inr ms)"
    by simp
  show ?case
    using here Cons.IH [OF rest]
    by (cases "isGroup ch"; cases "SAVE_GROUPS cfg") (auto simp: replayChats_B_Cons Let_def)
qed

lemma sync_first_failure:
  assumes "getChats env = Inr (cs1 @ c # cs2)"
    and "\<forall>ch \<in> set cs1. (isGroup ch \<and> \<not> SAVE_GROUPS cfg)
             \<or> (\<exists>ms. fetchMessages env ch \<lparr>limit = syncLimit cfg, fromMe = Some True\<rparr> = Inr ms)"
    and "\<not> (isGroup c \<and> \<not> SAVE_GROUPS cfg)"
    and "fetchMessages env c \<lparr>limit = syncLimit cfg, fromMe = Some True\<rparr> = Inl e"
  shows "syncRecentMessages env cfg st =
     logEvent (SyncError e)
       (replayChats env cfg (syncLimit cfg)
          (logEvent (FoundChats (length (cs1 @ c # cs2)) (syncLimit cfg)) st) cs1)"
proof -
  let ?st1 = "logEvent (FoundChats (length (cs1 @ c # cs2)) (syncLimit cfg)) st"
  have "syncChats env cfg (syncLimit cfg) (cs1 @ c # cs2) ?st1
      = syncChats env cfg (syncLimit cfg) (c # cs2) (replayChats env cfg (syncLimit cfg) ?st1 cs1)"
    using assms(2) by (rule syncChats_prefix)
  also have "\<dots> = (replayChats env cfg (syncLimit cfg) ?st1 cs1, Some e)"
    using assms(3,4) by auto
  finally show ?thesis
    using assms(1) by (simp add: syncRecentMessages_def Let_def)
qed

lemma sync_all_fetched:
  assumes "getChats env = Inr chats"
    and "\<forall>ch \<in> set chats. (isGroup ch \<and> \<not> SAVE_GROUPS cfg)
             \<or> (\<exists>ms. fetchMessages env ch \<lparr>limit = syncLimit cfg, fromMe = Some True\<rparr> = Inr ms)"
  shows "syncRecentMessages env cfg st =
     replayChats env cfg (syncLimit cfg)
       (logEvent (FoundChats (length chats) (syncLimit cfg)) st) chats"
proof -
  let ?st1 = "logEvent (FoundChats (length chats) (syncLimit cfg)) st"
  have "syncChats env cfg (syncLimit cfg) (chats @ []) ?st1
      = syncChats env cfg (syncLimit cfg) [] (replayChats env cfg (syncLimit cfg) ?st1 chats)"
    using assms(2) by (rule syncChats_prefix)
  then have "syncChats env cfg (syncLimit cfg) chats ?st1
      = (replayChats env cfg (syncLimit cfg) ?st1 chats, None)"
    by simp
  then show ?thesis
    using assms(1) by (simp add: syncRecentMessages_def Let_def)
qed

lemma sync_B_first_failure:
  assumes "getChats env = Inr (cs1 @ c # cs2)"
    and "\<forall>ch \<in> set cs1. (isGroup ch \<and> \<not> SAVE_GROUPS cfg)
             \<or> (\<exists>ms. fetchMessages env ch \<lparr>limit = syncLimit_B cfg, fromMe = None\<rparr> = Inr ms)"
    and "\<not> (isGroup c \<and> \<not> SAVE_GROUPS cfg)"
    and "fetchMessages env c \<lparr>limit = syncLimit_B cfg, fromMe = None\<rparr> = Inl e"
  shows "syncRecentMessages_B env cfg st =
     logEvent (SyncError e)
       (replayChats_B env cfg (syncLimit_B cfg)
          (logEvent (FoundChats (length (cs1 @ c # cs2)) (syncLimit_B cfg)) st) cs1)"
proof -
  let ?st1 = "logEvent (FoundChats (length (cs1 @ c # cs2)) (syncLimit_B cfg)) st"
  have "syncChats_B env cfg (cs1 @ c # cs2) ?st1
      = syncChats_B env cfg (c # cs2) (replayChats_B env cfg (syncLimit_B cfg) ?st1 cs1)"
    using assms(2) by (rule syncChats_B_prefix)
  also have "\<dots> = (replayChats_B env cfg (syncLimit_B cfg) ?st1 cs1, Some e)"
    using assms(3,4) by (auto simp: Let_def)
  finally show ?thesis
    using assms(1) by (simp add: syncRecentMessages_B_def Let_def)
qed

lemma sync_B_all_fetched:
  assumes "getChats env = Inr chats"
    and "\<forall>ch \<in> set chats. (isGroup ch \<and> \<not> SAVE_GROUPS cfg)
             \<or> (\<exists>ms. fetchMessages env ch \<lparr>limit = syncLimit_B cfg, fromMe = None\<rparr> = Inr ms)"
  shows "syncRecentMessages_B env cfg st =
     replayChats_B env cfg (syncLimit_B cfg)
       (logEvent (FoundChats (length chats) (syncLimit_B cfg)) st) chats"
proof -
  let ?st1 = "logEvent (FoundChats (length chats) (syncLimit_B cfg)) st"
  have "syncChats_B env cfg (chats @ []) ?st1
      = syncChats_B env cfg [] (replayChats_B env cfg (syncLimit_B cfg) ?st1 chats)"
    using assms(2) by (rule syncChats_B_prefix)
  then have "syncChats_B env cfg chats ?st1
      = (replayChats_B env cfg (syncLimit_B cfg) ?st1 chats, None)"
    by simp
  then show ?thesis
    using assms(1) by (simp add: syncRecentMessages_B_def Let_def)
qed

section \<open>The log holds every id once, in the order first seen\<close>

text \<open>
  C1. For every sequence of messages fed through the log step (the duplicate check
  followed by the append) on a log that starts empty, the resulting log holds each
  distinct message id at most once, and its records are ordered by the first
  occurrence of their id in the sequence: the ids of the log are those of the
  sequence with every later repetition removed, and each record of the log is the
  first one of the sequence that carries its id.
\<close>

theorem replay_first_seen:
  assumes "loadData fs logFile = []"
  shows "distinct (map md_id (loadData (foldl (\<lambda>fs' m. saveLog fs' logFile m) fs msgs) logFile))
       \<and> map md_id (loadData (foldl (\<lambda>fs' m. saveLog fs' logFile m) fs msgs) logFile)
           = rev (remdups (rev (map md_id msgs)))
       \<and> (\<forall>r \<in> set (loadData (foldl (\<lambda>fs' m. saveLog fs' logFile m) fs msgs) logFile).
             find (\<lambda>x. md_id x = md_id r) msgs = Some r)
       \<and> (msgs \<noteq> [] \<longrightarrow>
             foldl (\<lambda>fs' m. saveLog fs' logFile m) fs msgs logFile =
               Some (JsonLog (loadData (foldl (\<lambda>fs' m. saveLog fs' logFile m) fs msgs) logFile)))"
  using replay_loadData [OF assms, of msgs] replay_file [of msgs logFile fs] by blast

text \<open>
  Five messages with the ids a, b, a, c, b on an absent log leave the ids a, b, c.
\<close>

theorem replay_first_seen_witness:
  "loadData Map.empty demoLog = []
   \<and> map md_id (loadData
         (foldl (\<lambda>fs' m. saveLog fs' demoLog m) Map.empty
            [demoRecord ''a'', demoRecord ''b'', demoRecord ''a'', demoRecord ''c'',
             demoRecord ''b'']) demoLog)
       = [''a'', ''b'', ''c'']"
proof -
  have h: "loadData Map.empty demoLog = []"
    by (simp add: loadData_def pathExists_def)
  have i: "map md_id [demoRecord ''a'', demoRecord ''b'', demoRecord ''a'', demoRecord ''c'',
             demoRecord ''b''] = [''a'', ''b'', ''a'', ''c'', ''b'']"
    by (simp add: md_id_demoRecord)
  from replay_first_seen [OF h, of "[demoRecord ''a'', demoRecord ''b'', demoRecord ''a'',
      demoRecord ''c'', demoRecord ''b'']"] h
  show ?thesis
    unfolding i by simp
qed

section \<open>The sync driver and the order of replay\<close>

text \<open>
  C2. The second variant of the sync driver does not reverse the list of the
  provider: for a provider that returns the ids 3, 2, 1 on an empty archive, it
  leaves the log in the order 3, 2, 1, where the first variant leaves 1, 2, 3.
\<close>

theorem sync_B_newest_first:
  "map md_id (loadData (files (syncRecentMessages_B newestFirst demoConfig emptyState)) demoLog)
     = [''3'', ''2'', ''1'']"
  by code_simp

section \<open>A fetch that fails\<close>

text \<open>
  C3. When the fetch of a conversation fails during the startup sync, both variants
  of the sync driver log the error once and stop. With that conversation the first
  one whose fetch fails, the pass ends in exactly the state in which the conversations
  before it have been archived, each of them fetched and its messages processed, with
  the error line printed last: what was archived before the failure stays on disk, and
  the conversations behind the failing one are not processed.
\<close>

theorem sync_stops_at_failed_fetch:
  "(getChats env = Inr (cs1 @ c # cs2)
      \<and> (\<forall>ch \<in> set cs1. (isGroup ch \<and> \<not> SAVE_GROUPS cfg)
             \<or> (\<exists>ms. fetchMessages env ch \<lparr>limit = syncLimit cfg, fromMe = Some True\<rparr> = Inr ms))
      \<and> \<not> (isGroup c \<and> \<not> SAVE_GROUPS cfg)
      \<and> fetchMessages env c \<lparr>limit = syncLimit cfg, fromMe = Some True\<rparr> = Inl e \<longrightarrow>
    syncRecentMessages env cfg st =
      logEvent (SyncError e)
        (replayChats env cfg (syncLimit cfg)
           (logEvent (FoundChats (length (cs1 @ c # cs2)) (syncLimit cfg)) st) cs1))
   \<and> (getChats env = Inr (cs1 @ c # cs2)
      \<and> (\<forall>ch \<in> set cs1. (isGroup ch \<and> \<not> SAVE_GROUPS cfg)
             \<or> (\<exists>ms. fetchMessages env ch \<lparr>limit = syncLimit_B cfg, fromMe = None\<rparr> = Inr ms))
      \<and> \<not> (isGroup c \<and> \<not> SAVE_GROUPS cfg)
      \<and> fetchMessages env c \<lparr>limit = syncLimit_B cfg, fromMe = None\<rparr> = Inl e \<longrightarrow>
    syncRecentMessages_B env cfg st =
      logEvent (SyncError e)
        (replayChats_B env cfg (syncLimit_B cfg)
           (logEvent (FoundChats (length (cs1 @ c # cs2)) (syncLimit_B cfg)) st) cs1))"
  using sync_first_failure [of env cs1 c cs2 cfg e st]
    sync_B_first_failure [of env cs1 c cs2 cfg e st]
  by blast

text \<open>
  Three conversations, the second of which cannot be fetched: the log of the first one
  is on disk after the pass, and there is none for the third.
\<close>

theorem sync_stops_at_failed_fetch_witness:
  "syncRecentMessages brokenSecond demoConfig emptyState =
     logEvent (SyncError (Failure ''timeout''))
       (replayChats brokenSecond demoConfig (syncLimit demoConfig)
          (logEvent (FoundChats 3 (syncLimit demoConfig)) emptyState) [demoChat ''15550001''])
   \<and> syncRecentMessages_B brokenSecond demoConfig emptyState =
     logEvent (SyncError (Failure ''timeout''))
       (replayChats_B brokenSecond demoConfig (syncLimit_B demoConfig)
          (logEvent (FoundChats 3 (syncLimit_B demoConfig)) emptyState) [demoChat ''15550001''])
   \<and> files (syncRecentMessages brokenSecond demoConfig emptyState) demoLog
       = Some (JsonLog [demoRecord ''1''])
   \<and> files (syncRecentMessages brokenSecond demoConfig emptyState) demoLog2 = None
   \<and> files (syncRecentMessages_B brokenSecond demoConfig emptyState) demoLog
       = Some (JsonLog [demoRecord ''1''])
   \<and> files (syncRecentMessages_B brokenSecond demoConfig emptyState) demoLog2 = None"
proof -
  have g: "getChats brokenSecond
      = Inr ([demoChat ''15550001''] @ demoChat ''15550000'' # [demoChat ''15550002''])"
    by (simp add: brokenSecond_def demoProvider_def)
  have k: "\<not> (isGroup (demoChat ''15550000'') \<and> \<not> SAVE_GROUPS demoConfig)"
    by (simp add: demoChat_def)
  have pA: "\<forall>ch \<in> set [demoChat ''15550001''].
      (isGroup ch \<and> \<not> SAVE_GROUPS demoConfig)
      \<or> (\<exists>ms. fetchMessages brokenSecond ch
                 \<lparr>limit = syncLimit demoConfig, fromMe = Some True\<rparr> = Inr ms)"
    by (simp add: brokenSecond_def demoProvider_def)
  have pB: "\<forall>ch \<in> set [demoChat ''15550001''].
      (isGroup ch \<and> \<not> SAVE_GROUPS demoConfig)
      \<or> (\<exists>ms. fetchMessages brokenSecond ch
                 \<lparr>limit = syncLimit_B demoConfig, fromMe = None\<rparr> = Inr ms)"
    by (simp add: brokenSecond_def demoProvider_def)
  have fA: "fetchMessages brokenSecond (demoChat ''15550000'')
      \<lparr>limit = syncLimit demoConfig, fromMe = Some True\<rparr> = Inl (Failure ''timeout'')"
    by (simp add: brokenSecond_def demoProvider_def demoChat_def)
  have fB: "fetchMessages brokenSecond (demoChat ''15550000'')
      \<lparr>limit = syncLimit_B demoConfig, fromMe = None\<rparr> = Inl (Failure ''timeout'')"
    by (simp add: brokenSecond_def demoProvider_def demoChat_def)
  note inst = sync_stops_at_failed_fetch [of brokenSecond "[demoChat ''15550001'']"
      "demoChat ''15550000''" "[demoChat ''15550002'']" demoConfig "Failure ''timeout''" emptyState]
  from inst g pA k fA
  have eA: "syncRecentMessages brokenSecond demoConfig emptyState =
     logEvent (SyncError (Failure ''timeout''))
       (replayChats brokenSecond demoConfig (syncLimit demoConfig)
          (logEvent (FoundChats 3 (syncLimit demoConfig)) emptyState) [demoChat ''15550001''])"
    by (simp add: numeral_3_eq_3)
  from inst g pB k fB
  have eB: "syncRecentMessages_B brokenSecond demoConfig emptyState =
     logEvent (SyncError (Failure ''timeout''))
       (replayChats_B brokenSecond demoConfig (syncLimit_B demoConfig)
          (logEvent (FoundChats 3 (syncLimit_B demoConfig)) emptyState) [demoChat ''15550001''])"
    by (simp add: numeral_3_eq_3)
  have v: "files (logEvent (SyncError (Failure ''timeout''))
       (replayChats brokenSecond demoConfig (syncLimit demoConfig)
          (logEvent (FoundChats 3 (syncLimit demoConfig)) emptyState) [demoChat ''15550001'']))
        demoLog = Some (JsonLog [demoRecord ''1''])"
    "files (logEvent (SyncError (Failure ''timeout''))
       (replayChats brokenSecond demoConfig (syncLimit demoConfig)
          (logEvent (FoundChats 3 (syncLimit demoConfig)) emptyState) [demoChat ''15550001'']))
        demoLog2 = None"
    "files (logEvent (SyncError (Failure ''timeout''))
       (replayChats_B brokenSecond demoConfig (syncLimit_B demoConfig)
          (logEvent (FoundChats 3 (syncLimit_B demoConfig)) emptyState) [demoChat ''15550001'']))
        demoLog = Some (JsonLog [demoRecord ''1''])"
    "files (logEvent (SyncError (Failure ''timeout''))
       (replayChats_B brokenSecond demoConfig (syncLimit_B demoConfig)
          (logEvent (FoundChats 3 (syncLimit_B demoConfig)) emptyState) [demoChat ''15550001'']))
        demoLog2 = None"
    by code_simp+
  show ?thesis
    using eA eB v by simp
qed

text \<open>
  The message of the second conversation is archived when that conversation is alone,
  and is not when the conversation before it cannot be fetched.
\<close>

theorem later_conversation_skipped:
  "files (syncRecentMessages brokenFirst demoConfig emptyState) demoLog = None
   \<and> files (syncRecentMessages onlySecond demoConfig emptyState) demoLog
       = Some (JsonLog [demoRecord ''1''])
   \<and> files (syncRecentMessages_B brokenFirst demoConfig emptyState) demoLog = None
   \<and> files (syncRecentMessages_B onlySecond demoConfig emptyState) demoLog
       = Some (JsonLog [demoRecord ''1''])"
  by code_simp

section \<open>The names of the conversation folders\<close>

text \<open>
  C4. The path resolver always returns a name. For a group, and for a direct
  conversation whose contact is found and has a name, a push name or a user id, the
  name is the sanitised one: every character outside the letters, digits, underscore,
  hyphen and space has become an underscore, and no white space is left at either
  end. In the fallbacks of a direct conversation the name is returned as it is: the
  raw conversation id when the contact has no name at all, and, when the lookup
  fails, the part of the sender address before the at sign (or the user id of the
  conversation when there is no sender address), or the raw conversation id when
  that part is empty or missing.
\<close>

theorem getChatFilenameBase_cases:
  "(isGroup chat \<longrightarrow>
      getChatFilenameBase env chat msgFrom =
        sanitize (case chat_name chat of
                    Some n \<Rightarrow> if trim n \<noteq> [] then trim n else chat_serialized chat
                  | None \<Rightarrow> chat_serialized chat))
   \<and> (\<not> isGroup chat \<and> getContactById env (chat_serialized chat) = Inr contact
        \<and> contactNameOf contact = Some n \<and> n \<noteq> [] \<longrightarrow>
      getChatFilenameBase env chat msgFrom = sanitize n)
   \<and> (isGroup chat
        \<or> (\<not> isGroup chat \<and> getContactById env (chat_serialized chat) = Inr contact
            \<and> contactNameOf contact = Some n \<and> n \<noteq> []) \<longrightarrow>
      (\<forall>c \<in> set (getChatFilenameBase env chat msgFrom). safeChar c)
      \<and> (getChatFilenameBase env chat msgFrom \<noteq> [] \<longrightarrow>
           \<not> isWhiteSpace (hd (getChatFilenameBase env chat msgFrom))
           \<and> \<not> isWhiteSpace (last (getChatFilenameBase env chat msgFrom))))
   \<and> (\<not> isGroup chat \<and> getContactById env (chat_serialized chat) = Inr contact
        \<and> \<not> truthyString (contactNameOf contact) \<longrightarrow>
      getChatFilenameBase env chat msgFrom = chat_serialized chat)
   \<and> (\<not> isGroup chat \<and> getContactById env (chat_serialized chat) = Inl err \<longrightarrow>
      getChatFilenameBase env chat msgFrom =
        (case (if msgFrom \<noteq> [] then Some (splitFirst CHR ''@'' msgFrom) else chat_user chat) of
           Some phoneNumber \<Rightarrow> if phoneNumber \<noteq> [] then phoneNumber else chat_serialized chat
         | None \<Rightarrow> chat_serialized chat))
   \<and> sanitize s = trim (replaceUnsafe s)
   \<and> length (replaceUnsafe s) = length s
   \<and> (\<forall>i < length s. replaceUnsafe s ! i = (if safeChar (s ! i) then s ! i else CHR ''_''))"
proof -
  have g: "getChatFilenameBase env chat msgFrom =
        sanitize (case chat_name chat of
                    Some n \<Rightarrow> if trim n \<noteq> [] then trim n else chat_serialized chat
                  | None \<Rightarrow> chat_serialized chat)" if "isGroup chat"
    using that by (auto simp: getChatFilenameBase_def trim_Nil split: option.splits)
  have d: "getChatFilenameBase env chat msgFrom = sanitize n"
    if "\<not> isGroup chat" "getContactById env (chat_serialized chat) = Inr contact"
       "contactNameOf contact = Some n" "n \<noteq> []"
    using that by (simp add: getChatFilenameBase_def)
  have s: "(\<forall>c \<in> set (sanitize x). safeChar c)
      \<and> (sanitize x \<noteq> [] \<longrightarrow> \<not> isWhiteSpace (hd (sanitize x)) \<and> \<not> isWhiteSpace (last (sanitize x)))" for x
    using sanitize_safe sanitized_ends by blast
  have f1: "getChatFilenameBase env chat msgFrom = chat_serialized chat"
    if "\<not> isGroup chat" "getContactById env (chat_serialized chat) = Inr contact"
       "\<not> truthyString (contactNameOf contact)"
    using that by (simp add: getChatFilenameBase_def truthyString_def split: option.splits)
  have f2: "getChatFilenameBase env chat msgFrom =
        (case (if msgFrom \<noteq> [] then Some (splitFirst CHR ''@'' msgFrom) else chat_user chat) of
           Some phoneNumber \<Rightarrow> if phoneNumber \<noteq> [] then phoneNumber else chat_serialized chat
         | None \<Rightarrow> chat_serialized chat)"
    if "\<not> isGroup chat" "getContactById env (chat_serialized chat) = Inl err"
    using that by (simp add: getChatFilenameBase_def split: option.splits)
  show ?thesis
  proof (intro conjI impI)
    assume "isGroup chat"
    then show "getChatFilenameBase env chat msgFrom =
        sanitize (case chat_name chat of
                    Some n \<Rightarrow> if trim n \<noteq> [] then trim n else chat_serialized chat
                  | None \<Rightarrow> chat_serialized chat)" by (rule g)
  next
    assume "\<not> isGroup chat \<and> getContactById env (chat_serialized chat) = Inr contact
        \<and> contactNameOf contact = Some n \<and> n \<noteq> []"
    then show "getChatFilenameBase env chat msgFrom = sanitize n" using d by blast
  next
    assume a: "isGroup chat
        \<or> (\<not> isGroup chat \<and> getContactById env (chat_serialized chat) = Inr contact
            \<and> contactNameOf contact = Some n \<and> n \<noteq> [])"
    then have e: "\<exists>x. getChatFilenameBase env chat msgFrom = sanitize x"
      using g d by blast
    from e s show "\<forall>c \<in> set (getChatFilenameBase env chat msgFrom). safeChar c"
      by metis
    assume "getChatFilenameBase env chat msgFrom \<noteq> []"
    with e s show "\<not> isWhiteSpace (hd (getChatFilenameBase env chat msgFrom))"
      by metis
    assume "getChatFilenameBase env chat msgFrom \<noteq> []"
    with e s show "\<not> isWhiteSpace (last (getChatFilenameBase env chat msgFrom))"
      by metis
  next
    assume "\<not> isGroup chat \<and> getContactById env (chat_serialized chat) = Inr contact
        \<and> \<not> truthyString (contactNameOf contact)"
    then show "getChatFilenameBase env chat msgFrom = chat_serialized chat" using f1 by blast
  next
    assume "\<not> isGroup chat \<and> getContactById env (chat_serialized chat) = Inl err"
    then show "getChatFilenameBase env chat msgFrom =
        (case (if msgFrom \<noteq> [] then Some (splitFirst CHR ''@'' msgFrom) else chat_user chat) of
           Some phoneNumber \<Rightarrow> if phoneNumber \<noteq> [] then phoneNumber else chat_serialized chat
         | None \<Rightarrow> chat_serialized chat)" using f2 by blast
  next
    show "sanitize s = trim (replaceUnsafe s)"
      by (simp add: sanitize_def)
    show "length (replaceUnsafe s) = length s"
      by (simp add: replaceUnsafe_def)
    show "\<forall>i < length s. replaceUnsafe s ! i = (if safeChar (s ! i) then s ! i else CHR ''_'')"
      by (simp add: replaceUnsafe_nth)
  qed
qed

text \<open>
  A group named Team #1 with spaces around it, a contact known by its number, and a
  contact whose lookup fails, with and without a sender address.
\<close>

theorem getChatFilenameBase_cases_witness:
  "getChatFilenameBase (demoProvider []) teamChat ''15550001@c.us'' = ''Team _1''
   \<and> list_all safeChar (getChatFilenameBase (demoProvider []) teamChat ''15550001@c.us'')
   \<and> getChatFilenameBase (demoProvider []) (demoChat ''15550001'') ''15550001@c.us'' = ''15550001''
   \<and> getChatFilenameBase failingLookup strangerChat ''15551234567@c.us'' = ''15551234567''
   \<and> getChatFilenameBase failingLookup strangerChat [] = ''15551234567@c.us''"
  using getChatFilenameBase_cases [of teamChat "demoProvider []" "''15550001@c.us''"
      "\<lparr> contact_name = None, contact_pushname = None, contact_user = None \<rparr>" "[]"
      "Failure []" "''Team #1''"]
    getChatFilenameBase_cases [of "demoChat ''15550001''" "demoProvider []" "''15550001@c.us''"
      "\<lparr> contact_name = None, contact_pushname = None, contact_user = Some ''15550001'' \<rparr>"
      "''15550001''" "Failure []" "''15550001''"]
    getChatFilenameBase_cases [of strangerChat failingLookup "''15551234567@c.us''"
      "\<lparr> contact_name = None, contact_pushname = None, contact_user = None \<rparr>" "[]"
      "Failure ''lookup failed''" "[]"]
    getChatFilenameBase_cases [of strangerChat failingLookup "[]"
      "\<lparr> contact_name = None, contact_pushname = None, contact_user = None \<rparr>" "[]"
      "Failure ''lookup failed''" "[]"]
  by (simp add: teamChat_def demoChat_def demoProvider_def failingLookup_def strangerChat_def
      contactNameOf_def orElse_def truthyString_def splitFirst_def
      sanitize_def trim_def replaceUnsafe_def safeChar_def isWhiteSpace_def)

text \<open>
  A failing lookup, no sender address and no user id: the raw conversation id comes
  back, at sign and dot included.
\<close>

theorem getChatFilenameBase_raw_id:
  "getChatFilenameBase failingLookup strangerChat [] = ''15551234567@c.us''
   \<and> \<not> list_all safeChar (getChatFilenameBase failingLookup strangerChat [])"
  by (simp add: getChatFilenameBase_def failingLookup_def demoProvider_def strangerChat_def
      safeChar_def)

section \<open>The duplicate filter\<close>

text \<open>
  C5. \<^verbatim>\<open>checkDuplicate(logPath, messageId)\<close> returns true if and only if the log file
  exists, parses as a JSON array, and some record in it has an id equal to
  \<open>messageId\<close>; it returns false when the file is absent, empty or unparsable.
\<close>

theorem checkDuplicate_iff:
  "checkDuplicate fs logPath messageId =
     (\<exists>data. fs logPath = Some (JsonLog data) \<and> (\<exists>m \<in> set data. md_id m = messageId))
   \<and> (fs logPath = None \<longrightarrow> \<not> checkDuplicate fs logPath messageId)
   \<and> (fs logPath = Some (Other []) \<longrightarrow> \<not> checkDuplicate fs logPath messageId)
   \<and> (fs logPath = Some (Other s) \<longrightarrow> \<not> checkDuplicate fs logPath messageId)"
  by (auto simp: checkDuplicate_def pathExists_def readJson_def list_ex_iff
      split: option.splits fileContent.splits)

text \<open>
  A log with the ids a and b, a log with the id a alone, no file, an empty file and
  a truncated file, each asked for the id b.
\<close>

theorem checkDuplicate_iff_witness:
  "checkDuplicate [demoLog \<mapsto> JsonLog [demoRecord ''a'', demoRecord ''b'']] demoLog ''b''
   \<and> \<not> checkDuplicate [demoLog \<mapsto> JsonLog [demoRecord ''a'']] demoLog ''b''
   \<and> \<not> checkDuplicate Map.empty demoLog ''b''
   \<and> \<not> checkDuplicate [demoLog \<mapsto> Other []] demoLog ''b''
   \<and> \<not> checkDuplicate [demoLog \<mapsto> Other ''[{ id''] demoLog ''b''"
  using checkDuplicate_iff [of "[demoLog \<mapsto> JsonLog [demoRecord ''a'', demoRecord ''b'']]"
      demoLog "''b''" "[]"]
    checkDuplicate_iff [of "[demoLog \<mapsto> JsonLog [demoRecord ''a'']]" demoLog "''b''" "[]"]
    checkDuplicate_iff [of Map.empty demoLog "''b''" "[]"]
    checkDuplicate_iff [of "[demoLog \<mapsto> Other []]" demoLog "''b''" "[]"]
    checkDuplicate_iff [of "[demoLog \<mapsto> Other ''[{ id'']" demoLog "''b''" "''[{ id''"]
  by (simp add: md_id_demoRecord)

section \<open>The archival writer\<close>

text \<open>
  C6. \<^verbatim>\<open>appendToJson(logPath, record)\<close> loads the current array, an absent or
  unparsable file counting as the empty array; it leaves the file unchanged when the
  array is not empty and the id of its last element equals the id of the record, and
  otherwise writes back the array with the record appended as its new last element.
\<close>

theorem appendToJson_cases:
  "(fs logPath = None \<or> fs logPath = Some (Other s)
      \<longrightarrow> appendToJson fs logPath record = fs(logPath \<mapsto> JsonLog [record]))
   \<and> (fs logPath = Some (JsonLog data) \<and> data \<noteq> [] \<and> md_id (last data) = md_id record
      \<longrightarrow> appendToJson fs logPath record = fs)
   \<and> (fs logPath = Some (JsonLog data) \<and> \<not> (data \<noteq> [] \<and> md_id (last data) = md_id record)
      \<longrightarrow> appendToJson fs logPath record = fs(logPath \<mapsto> JsonLog (data @ [record])))"
  by (auto simp: appendToJson_def writeJson_def loadData_cases Let_def last_conv_nth)

text \<open>
  No file, a truncated file, a log that ends with the id of the record, and a log
  that holds the id of the record but does not end with it.
\<close>

theorem appendToJson_cases_witness:
  "appendToJson Map.empty demoLog (demoRecord ''b'') = [demoLog \<mapsto> JsonLog [demoRecord ''b'']]
   \<and> appendToJson [demoLog \<mapsto> Other ''[{ id''] demoLog (demoRecord ''b'')
       = [demoLog \<mapsto> JsonLog [demoRecord ''b'']]
   \<and> appendToJson [demoLog \<mapsto> JsonLog [demoRecord ''a'', demoRecord ''b'']] demoLog
         (demoRecord ''b'')
       = [demoLog \<mapsto> JsonLog [demoRecord ''a'', demoRecord ''b'']]
   \<and> appendToJson [demoLog \<mapsto> JsonLog [demoRecord ''b'', demoRecord ''a'']] demoLog
         (demoRecord ''b'')
       = [demoLog \<mapsto> JsonLog [demoRecord ''b'', demoRecord ''a'', demoRecord ''b'']]"
  using appendToJson_cases [of Map.empty demoLog "[]" "demoRecord ''b''" "[]"]
    appendToJson_cases [of "[demoLog \<mapsto> Other ''[{ id'']" demoLog "''[{ id''" "demoRecord ''b''" "[]"]
    appendToJson_cases [of "[demoLog \<mapsto> JsonLog [demoRecord ''a'', demoRecord ''b'']]" demoLog
      "[]" "demoRecord ''b''" "[demoRecord ''a'', demoRecord ''b'']"]
    appendToJson_cases [of "[demoLog \<mapsto> JsonLog [demoRecord ''b'', demoRecord ''a'']]" demoLog
      "[]" "demoRecord ''b''" "[demoRecord ''b'', demoRecord ''a'']"]
  by (simp add: md_id_demoRecord)

section \<open>Media files are written once\<close>

text \<open>
  C7. Media persistence is idempotent by file presence. Processing the same message
  twice leaves the disk as processing it once does; the media step changes no file
  that exists already; and when the media is downloaded, its file exists afterwards,
  holds the downloaded data if it was not there before, and is the only path of the
  disk that two runs of the media step can have changed.
\<close>

theorem media_write_idempotent:
  "files (processMessage env cfg (processMessage env cfg st msg) msg)
     = files (processMessage env cfg st msg)
   \<and> files (saveMedia env cfg (saveMedia env cfg st msg mediaDir base) msg mediaDir base)
     = files (saveMedia env cfg st msg mediaDir base)
   \<and> (pathExists (files st) p \<longrightarrow> files (saveMedia env cfg st msg mediaDir base) p = files st p)
   \<and> (SAVE_MEDIA cfg \<and> msg_hasMedia msg \<and> downloadMedia env msg = Inr (Some m) \<longrightarrow>
        pathExists (files (saveMedia env cfg st msg mediaDir base)) (mediaFilePath env msg mediaDir m)
        \<and> (\<not> pathExists (files st) (mediaFilePath env msg mediaDir m) \<longrightarrow>
             files (saveMedia env cfg st msg mediaDir base) (mediaFilePath env msg mediaDir m)
               = Some (Other (media_data m)))
        \<and> (p \<noteq> mediaFilePath env msg mediaDir m \<longrightarrow>
             files (saveMedia env cfg (saveMedia env cfg st msg mediaDir base) msg mediaDir base) p
               = files st p))"
proof (intro conjI impI)
  show "files (processMessage env cfg (processMessage env cfg st msg) msg)
     = files (processMessage env cfg st msg)"
    by (rule processMessage_twice)
  show twice: "files (saveMedia env cfg (saveMedia env cfg st msg mediaDir base) msg mediaDir base)
     = files (saveMedia env cfg st msg mediaDir base)"
    by (simp add: saveMedia_files storeMedia_idem)
  show "files (saveMedia env cfg st msg mediaDir base) p = files st p" if "pathExists (files st) p"
    using that by (simp add: saveMedia_files storeMedia_existing)
  assume a: "SAVE_MEDIA cfg \<and> msg_hasMedia msg \<and> downloadMedia env msg = Inr (Some m)"
  then have r: "files (saveMedia env cfg st msg mediaDir base) =
     (if pathExists (files st) (mediaFilePath env msg mediaDir m) then files st
      else (files st)(mediaFilePath env msg mediaDir m \<mapsto> Other (media_data m)))"
    by (simp add: saveMedia_files storeMedia_result)
  show "pathExists (files (saveMedia env cfg st msg mediaDir base)) (mediaFilePath env msg mediaDir m)"
    unfolding r by (simp add: pathExists_def)
  show "files (saveMedia env cfg st msg mediaDir base) (mediaFilePath env msg mediaDir m)
               = Some (Other (media_data m))"
    if "\<not> pathExists (files st) (mediaFilePath env msg mediaDir m)"
    unfolding r using that by simp
  show "files (saveMedia env cfg (saveMedia env cfg st msg mediaDir base) msg mediaDir base) p
               = files st p" if "p \<noteq> mediaFilePath env msg mediaDir m"
    unfolding twice r using that by simp
qed

text \<open>
  A message with a picture, on an empty disk and on a disk that holds a file at the
  path of the picture.
\<close>

theorem media_write_idempotent_witness:
  "files (processMessage (demoProvider []) demoConfig emptyState photoMessage) photoPath
     = Some (Other ''/9j/4AAQSkZJRg=='')
   \<and> files (processMessage (demoProvider []) demoConfig
        (processMessage (demoProvider []) demoConfig emptyState photoMessage) photoMessage)
     = files (processMessage (demoProvider []) demoConfig emptyState photoMessage)
   \<and> mediaFilePath (demoProvider []) photoMessage
        [''backup'', ''media'', ''2023-11-14'', ''15550001''] demoMedia = photoPath
   \<and> files (saveMedia (demoProvider []) demoConfig
        \<lparr> files = [photoPath \<mapsto> Other ''old''], console = [] \<rparr> photoMessage
        [''backup'', ''media'', ''2023-11-14'', ''15550001''] ''15550001'') photoPath
     = Some (Other ''old'')"
  using media_write_idempotent [of "demoProvider []" demoConfig emptyState photoMessage
      "[''backup'', ''media'', ''2023-11-14'', ''15550001'']" "''15550001''" photoPath demoMedia]
    media_write_idempotent [of "demoProvider []" demoConfig
      "\<lparr> files = [photoPath \<mapsto> Other ''old''], console = [] \<rparr>" photoMessage
      "[''backup'', ''media'', ''2023-11-14'', ''15550001'']" "''15550001''" photoPath demoMedia]
  by (simp add: pathExists_def demoProvider_def demoConfig_def photoMessage_def demoMessage_def
      demoMedia_def photoPath_def mediaFilePath_def emptyState_def processMessage_def
      saveMessage_def saveText_def saveMedia_def getChatFilenameBase_def demoChat_def
      contactNameOf_def orElse_def truthyString_def splitFirst_def sanitize_def trim_def
      replaceUnsafe_def safeChar_def isWhiteSpace_def checkDuplicate_def appendToJson_def
      loadData_def readJson_def writeJson_def writeFile_def logEvent_def messageDataOf_def Let_def)

section \<open>Sanitisation of a sample name\<close>

text \<open>
  C8. The sanitisation expression maps the name O'Brien/Team #1 to O_Brien_Team _1:
  the apostrophe, the slash and the hash sign each become an underscore, and the
  result is trimmed.
\<close>

theorem sanitize_sample:
  "sanitize ''O'Brien/Team #1'' = ''O_Brien_Team _1''"
  by (simp add: sanitize_def trim_def replaceUnsafe_def safeChar_def isWhiteSpace_def)

section \<open>The viewer on an empty backup directory\<close>

text \<open>
  C9. When the listing of the backup directory is empty, the viewer prints the line
  that says that no chats were found and nothing else, prints no error, closes its
  interface and ends with exit code 0.
\<close>

theorem viewer_empty_directory:
  assumes "readdir inp = Inr []"
  shows "listChats inp fs backupDir = \<lparr>printed = [NoChatsFound], closed = True\<rparr>
       \<and> exitCode (listChats inp fs backupDir) = Some 0
       \<and> \<not> list_ex isErrorLine (printed (listChats inp fs backupDir))"
  using assms by (simp add: listChats_def display_def rlClose_def exitCode_def isErrorLine_def)

theorem viewer_empty_directory_witness:
  "readdir emptyBackup = Inr []
   \<and> printed (listChats emptyBackup Map.empty [''app'', ''backup'', ''chats'']) = [NoChatsFound]
   \<and> exitCode (listChats emptyBackup Map.empty [''app'', ''backup'', ''chats'']) = Some 0"
proof -
  have h: "readdir emptyBackup = Inr []"
    by (simp add: emptyBackup_def)
  from viewer_empty_directory [OF h, of Map.empty "[''app'', ''backup'', ''chats'']"] h
  show ?thesis by (simp add: exitCode_def)
qed

section \<open>A falsy sync limit\<close>

text \<open>
  C10. When \<^verbatim>\<open>config.SYNC_LIMIT\<close> is falsy (unset, null or the integer 0 among
  others), the limit of the first variant is 99999 and that of the second is 50, and
  every fetch of the pass is made with that limit: the pass ends in the state of the
  reference course that fetches each conversation with the limit 99999 (50 in the
  second variant) and processes what the provider returns, up to the first fetch
  that fails if there is one. The whole sync also runs as it does with that number
  written in the configuration: a limit of 0 does not turn the sync off.
\<close>

theorem falsy_limit_default:
  assumes "\<not> truthy (SYNC_LIMIT cfg)"
  shows "syncLimit cfg = Number 99999
       \<and> syncLimit_B cfg = Number 50
       \<and> syncRecentMessages env cfg st
           = syncRecentMessages env (cfg\<lparr>SYNC_LIMIT := Number 99999\<rparr>) st
       \<and> syncRecentMessages_B env cfg st
           = syncRecentMessages_B env (cfg\<lparr>SYNC_LIMIT := Number 50\<rparr>) st
       \<and> (getChats env = Inr chats
           \<and> (\<forall>ch \<in> set chats. (isGroup ch \<and> \<not> SAVE_GROUPS cfg)
                 \<or> (\<exists>ms. fetchMessages env ch \<lparr>limit = Number 99999, fromMe = Some True\<rparr> = Inr ms))
           \<longrightarrow> syncRecentMessages env cfg st =
                 replayChats env cfg (Number 99999)
                   (logEvent (FoundChats (length chats) (Number 99999)) st) chats)
       \<and> (getChats env = Inr (cs1 @ c # cs2)
           \<and> (\<forall>ch \<in> set cs1. (isGroup ch \<and> \<not> SAVE_GROUPS cfg)
                 \<or> (\<exists>ms. fetchMessages env ch \<lparr>limit = Number 99999, fromMe = Some True\<rparr> = Inr ms))
           \<and> \<not> (isGroup c \<and> \<not> SAVE_GROUPS cfg)
           \<and> fetchMessages env c \<lparr>limit = Number 99999, fromMe = Some True\<rparr> = Inl e
           \<longrightarrow> syncRecentMessages env cfg st =
                 logEvent (SyncError e)
                   (replayChats env cfg (Number 99999)
                      (logEvent (FoundChats (length (cs1 @ c # cs2)) (Number 99999)) st) cs1))
       \<and> (getChats env = Inr chats
           \<and> (\<forall>ch \<in> set chats. (isGroup ch \<and> \<not> SAVE_GROUPS cfg)
                 \<or> (\<exists>ms. fetchMessages env ch \<lparr>limit = Number 50, fromMe = None\<rparr> = Inr ms))
           \<longrightarrow> syncRecentMessages_B env cfg st =
                 replayChats_B env cfg (Number 50)
                   (logEvent (FoundChats (length chats) (Number 50)) st) chats)
       \<and> (getChats env = Inr (cs1 @ c # cs2)
           \<and> (\<forall>ch \<in> set cs1. (isGroup ch \<and> \<not> SAVE_GROUPS cfg)
                 \<or> (\<exists>ms. fetchMessages env ch \<lparr>limit = Number 50, fromMe = None\<rparr> = Inr ms))
           \<and> \<not> (isGroup c \<and> \<not> SAVE_GROUPS cfg)
           \<and> fetchMessages env c \<lparr>limit = Number 50, fromMe = None\<rparr> = Inl e
           \<longrightarrow> syncRecentMessages_B env cfg st =
                 logEvent (SyncError e)
                   (replayChats_B env cfg (Number 50)
                      (logEvent (FoundChats (length (cs1 @ c # cs2)) (Number 50)) st) cs1))"
proof -
  have a: "syncLimit cfg = Number 99999" and b: "syncLimit_B cfg = Number 50"
    using assms by (simp_all add: syncLimit_def syncLimit_B_def)
  have a': "syncLimit (cfg\<lparr>SYNC_LIMIT := Number 99999\<rparr>) = Number 99999"
    and b': "syncLimit_B (cfg\<lparr>SYNC_LIMIT := Number 50\<rparr>) = Number 50"
    by (simp_all add: syncLimit_def syncLimit_B_def)
  have c1: "syncRecentMessages env cfg st
           = syncRecentMessages env (cfg\<lparr>SYNC_LIMIT := Number 99999\<rparr>) st"
    by (simp add: syncRecentMessages_def a a' syncChats_limit split: sum.splits)
  have c2: "syncRecentMessages_B env cfg st
           = syncRecentMessages_B env (cfg\<lparr>SYNC_LIMIT := Number 50\<rparr>) st"
    by (simp add: syncRecentMessages_B_def b b' syncChats_B_limit split: sum.splits)
  note A1 = sync_all_fetched [of env chats cfg st, unfolded a]
  note A2 = sync_first_failure [of env cs1 c cs2 cfg e st, unfolded a]
  note B1 = sync_B_all_fetched [of env chats cfg st, unfolded b]
  note B2 = sync_B_first_failure [of env cs1 c cs2 cfg e st, unfolded b]
  show ?thesis
    using a b c1 c2 A1 A2 B1 B2 by blast
qed

text \<open>
  A configured limit of 0 and a provider that returns nothing when asked for 0
  messages: the one message of the conversation is archived by both variants.
\<close>

theorem falsy_limit_default_witness:
  "\<not> truthy (SYNC_LIMIT demoConfig)
   \<and> SYNC_LIMIT demoConfig = Number 0
   \<and> fetchMessages limitSensitive (demoChat ''15550001'')
        \<lparr>limit = Number 0, fromMe = Some True\<rparr> = Inr []
   \<and> files (syncRecentMessages limitSensitive demoConfig emptyState) demoLog
        = Some (JsonLog [demoRecord ''1''])
   \<and> files (syncRecentMessages_B limitSensitive demoConfig emptyState) demoLog
        = Some (JsonLog [demoRecord ''1''])
   \<and> syncLimit (demoConfig\<lparr>SYNC_LIMIT := Null\<rparr>) = Number 99999
   \<and> syncLimit (demoConfig\<lparr>SYNC_LIMIT := Undefined\<rparr>) = Number 99999"
proof -
  have h: "\<not> truthy (SYNC_LIMIT demoConfig)"
    and z: "SYNC_LIMIT demoConfig = Number 0"
    and n: "\<not> truthy (SYNC_LIMIT (demoConfig\<lparr>SYNC_LIMIT := Null\<rparr>))"
    and u: "\<not> truthy (SYNC_LIMIT (demoConfig\<lparr>SYNC_LIMIT := Undefined\<rparr>))"
    by (simp_all add: demoConfig_def)
  have g: "getChats limitSensitive = Inr [demoChat ''15550001'']"
    by (simp add: limitSensitive_def)
  have z0: "fetchMessages limitSensitive (demoChat ''15550001'')
        \<lparr>limit = Number 0, fromMe = Some True\<rparr> = Inr []"
    by (simp add: limitSensitive_def)
  have pA: "\<forall>ch \<in> set [demoChat ''15550001''].
      (isGroup ch \<and> \<not> SAVE_GROUPS demoConfig)
      \<or> (\<exists>ms. fetchMessages limitSensitive ch \<lparr>limit = Number 99999, fromMe = Some True\<rparr> = Inr ms)"
    by (simp add: limitSensitive_def)
  have pB: "\<forall>ch \<in> set [demoChat ''15550001''].
      (isGroup ch \<and> \<not> SAVE_GROUPS demoConfig)
      \<or> (\<exists>ms. fetchMessages limitSensitive ch \<lparr>limit = Number 50, fromMe = None\<rparr> = Inr ms)"
    by (simp add: limitSensitive_def)
  note inst = falsy_limit_default [OF h, of limitSensitive emptyState "[demoChat ''15550001'']"]
  from inst g pA
  have eA: "syncRecentMessages limitSensitive demoConfig emptyState =
      replayChats limitSensitive demoConfig (Number 99999)
        (logEvent (FoundChats (length [demoChat ''15550001'']) (Number 99999)) emptyState)
        [demoChat ''15550001'']"
    by blast
  from inst g pB
  have eB: "syncRecentMessages_B limitSensitive demoConfig emptyState =
      replayChats_B limitSensitive demoConfig (Number 50)
        (logEvent (FoundChats (length [demoChat ''15550001'']) (Number 50)) emptyState)
        [demoChat ''15550001'']"
    by blast
  have v: "files (replayChats limitSensitive demoConfig (Number 99999)
        (logEvent (FoundChats (length [demoChat ''15550001'']) (Number 99999)) emptyState)
        [demoChat ''15550001'']) demoLog = Some (JsonLog [demoRecord ''1''])"
    "files (replayChats_B limitSensitive demoConfig (Number 50)
        (logEvent (FoundChats (length [demoChat ''15550001'']) (Number 50)) emptyState)
        [demoChat ''15550001'']) demoLog = Some (JsonLog [demoRecord ''1''])"
    by code_simp+
  show ?thesis
    using h z z0 v falsy_limit_default [OF n] falsy_limit_default [OF u]
    unfolding eA eB by simp
qed

end
